theory Spec2Isabelle
  imports Complex_Main
begin

section \<open>The DXF analyzer of \<open>src/dxf_analyzer.py\<close>\<close>

text \<open>
  The analyzer reads a drawing through the interface of the parsing library and appends
  diagnostic records to three lists. The embedding follows the source function by
  function. Conventions:
  \<^item> A Python float is a value of \<open>pyfloat\<close>: a finite binary64 number (a real), an
    infinity or a NaN. Every arithmetic operation rounds its exact result to the nearest
    binary64 number, ties to even; so do \<open>x ** 2\<close>, \<open>sqrt\<close>, \<open>cos\<close> and \<open>sin\<close>, which are
    taken as correctly rounded. A zero has no sign: \<open>-0.0\<close> is \<open>0.0\<close>, except where a
    rounded coordinate is printed (\<open>_get_entity_hash\<close>).
  \<^item> An attribute that the source probes with \<open>hasattr\<close> is an \<open>option\<close> field; reading
    an absent attribute outside a \<open>hasattr\<close> guard raises, which is the value \<open>Inl\<close> of a
    sum type.
  \<^item> The four free-text fields of a record (title, description, cause, suggestion) carry
    no information used by any check and are left out.
  \<^item> \<open>doc.layouts\<close> lists the model space first and then the paper-space layouts;
    \<open>doc.modelspace()\<close> is that first layout.
  \<^item> Strings are ASCII: \<open>str.upper\<close> is modelled on the letters \<open>a\<close> to \<open>z\<close> only.
\<close>

subsection \<open>Binary floating point\<close>

text \<open>Rounding to the nearest integer, ties to even.\<close>

definition round_half_even :: "real \<Rightarrow> int" where
  "round_half_even y =
     (let f = \<lfloor>y\<rfloor>; r = y - of_int f
      in if r < 1 / 2 then f else if 1 / 2 < r then f + 1 else if even f then f else f + 1)"

definition pow2 :: "int \<Rightarrow> real" where
  "pow2 e = 2 powr real_of_int e"

text \<open>The exponent of the unit in the last place of a binary64 number near \<open>x\<close>: 53
  significant bits, and the fixed exponent \<open>-1074\<close> in the subnormal range.\<close>

definition ulp_exponent :: "real \<Rightarrow> int" where
  "ulp_exponent x = max \<lfloor>log 2 \<bar>x\<bar>\<rfloor> (- 1022) - 52"

text \<open>The multiple of the unit in the last place that is nearest to \<open>x\<close>, ties to even.\<close>

definition round_to_double :: "real \<Rightarrow> real" where
  "round_to_double x =
     (let e = ulp_exponent x in real_of_int (round_half_even (x / pow2 e)) * pow2 e)"

datatype pyfloat = Finite real | PosInf | NegInf | NaN

text \<open>The binary64 result of an operation whose exact result is \<open>x\<close>: a rounded value of
  magnitude \<open>2 ^ 1024\<close> or more is an infinity.\<close>

definition to_double :: "real \<Rightarrow> pyfloat" where
  "to_double x =
     (let y = round_to_double x
      in if 2 ^ 1024 \<le> \<bar>y\<bar> then (if 0 < x then PosInf else NegInf) else Finite y)"

fun fneg :: "pyfloat \<Rightarrow> pyfloat" where
  "fneg (Finite a) = Finite (- a)"
| "fneg PosInf = NegInf"
| "fneg NegInf = PosInf"
| "fneg NaN = NaN"

fun fabs :: "pyfloat \<Rightarrow> pyfloat" where
  "fabs (Finite a) = Finite \<bar>a\<bar>"
| "fabs PosInf = PosInf"
| "fabs NegInf = PosInf"
| "fabs NaN = NaN"

fun fadd :: "pyfloat \<Rightarrow> pyfloat \<Rightarrow> pyfloat" where
  "fadd (Finite a) (Finite b) = to_double (a + b)"
| "fadd NaN y = NaN"
| "fadd x NaN = NaN"
| "fadd PosInf NegInf = NaN"
| "fadd NegInf PosInf = NaN"
| "fadd (Finite a) y = y"
| "fadd x y = x"

definition fsub :: "pyfloat \<Rightarrow> pyfloat \<Rightarrow> pyfloat" where
  "fsub x y = fadd x (fneg y)"

fun fmul :: "pyfloat \<Rightarrow> pyfloat \<Rightarrow> pyfloat" where
  "fmul (Finite a) (Finite b) = to_double (a * b)"
| "fmul NaN y = NaN"
| "fmul x NaN = NaN"
| "fmul (Finite a) y = (if a = 0 then NaN else if 0 < a then y else fneg y)"
| "fmul x (Finite b) = (if b = 0 then NaN else if 0 < b then x else fneg x)"
| "fmul x y = (if x = y then PosInf else NegInf)"

text \<open>Division by a positive constant.\<close>

fun fdiv_by :: "pyfloat \<Rightarrow> real \<Rightarrow> pyfloat" where
  "fdiv_by (Finite a) c = to_double (a / c)"
| "fdiv_by x c = x"

text \<open>\<open>a < b\<close> on floats; every comparison with a NaN is false.\<close>

fun flt :: "pyfloat \<Rightarrow> pyfloat \<Rightarrow> bool" where
  "flt (Finite a) (Finite b) = (a < b)"
| "flt NaN y = False"
| "flt x NaN = False"
| "flt NegInf y = (y \<noteq> NegInf)"
| "flt x PosInf = (x \<noteq> PosInf)"
| "flt x y = False"

text \<open>\<open>min(a, b)\<close> and \<open>max(a, b)\<close>: the first argument unless the second is smaller
  (larger).\<close>

definition py_min :: "pyfloat \<Rightarrow> pyfloat \<Rightarrow> pyfloat" where
  "py_min a b = (if flt b a then b else a)"

definition py_max :: "pyfloat \<Rightarrow> pyfloat \<Rightarrow> pyfloat" where
  "py_max a b = (if flt a b then b else a)"

text \<open>\<open>round(x, n)\<close> on a float: the exact value of \<open>x\<close> is rounded to \<open>n\<close> decimals,
  ties to even, and the result is the nearest binary64 number; infinities and NaN are
  returned unchanged.\<close>

fun py_round :: "pyfloat \<Rightarrow> nat \<Rightarrow> pyfloat" where
  "py_round (Finite x) n = to_double (of_int (round_half_even (x * 10 ^ n)) / 10 ^ n)"
| "py_round x n = x"

subsection \<open>Data model\<close>

datatype fault =
    LoadError | AttributeError string | TypeError string | OverflowError | ValueError
  | ZeroDivisionError

text \<open>Sequencing of computations that may raise.\<close>

definition and_then :: "fault + 'a \<Rightarrow> ('a \<Rightarrow> fault + 'b) \<Rightarrow> fault + 'b" where
  "and_then m k = (case m of Inl f \<Rightarrow> Inl f | Inr x \<Rightarrow> k x)"

definition attr :: "string \<Rightarrow> 'a option \<Rightarrow> fault + 'a" where
  "attr name v = (case v of None \<Rightarrow> Inl (AttributeError name) | Some x \<Rightarrow> Inr x)"

text \<open>A \<open>for\<close> loop whose body may raise: the first fault ends the loop.\<close>

primrec for_each :: "('a \<Rightarrow> 's \<Rightarrow> fault + 's) \<Rightarrow> 'a list \<Rightarrow> 's \<Rightarrow> fault + 's" where
  "for_each body [] s = Inr s"
| "for_each body (x # xs) s =
     (case body x s of Inl f \<Rightarrow> Inl f | Inr s' \<Rightarrow> for_each body xs s')"

text \<open>\<open>a / b\<close> on Python integers: the correctly rounded quotient; \<open>OverflowError\<close> when
  it is too large for a float.\<close>

definition true_divide :: "int \<Rightarrow> int \<Rightarrow> fault + pyfloat" where
  "true_divide a b =
     (if b = 0 then Inl ZeroDivisionError
      else (case to_double (real_of_int a / real_of_int b) of
              Finite q \<Rightarrow> Inr (Finite q)
            | _ \<Rightarrow> Inl OverflowError))"

text \<open>\<open>x ** 2\<close>. On a Python float an overflowing square raises \<open>OverflowError\<close>; on a
  numpy scalar (flag \<open>np\<close>) it is an infinity.\<close>

fun fsquare :: "bool \<Rightarrow> pyfloat \<Rightarrow> fault + pyfloat" where
  "fsquare np (Finite a) =
     (case to_double (a * a) of
        Finite y \<Rightarrow> Inr (Finite y)
      | _ \<Rightarrow> if np then Inr PosInf else Inl OverflowError)"
| "fsquare np NaN = Inr NaN"
| "fsquare np x = Inr PosInf"

text \<open>\<open>math.sqrt\<close>: correctly rounded; \<open>ValueError\<close> on a negative argument.\<close>

fun fsqrt :: "pyfloat \<Rightarrow> fault + pyfloat" where
  "fsqrt (Finite a) = (if a < 0 then Inl ValueError else Inr (Finite (round_to_double (sqrt a))))"
| "fsqrt PosInf = Inr PosInf"
| "fsqrt NegInf = Inl ValueError"
| "fsqrt NaN = Inr NaN"

text \<open>\<open>np.cos\<close>, \<open>np.sin\<close> (taken as correctly rounded) and \<open>np.radians\<close>, which multiplies
  by the float \<open>pi / 180\<close>.\<close>

fun fcos :: "pyfloat \<Rightarrow> pyfloat" where
  "fcos (Finite a) = Finite (round_to_double (cos a))"
| "fcos x = NaN"

fun fsin :: "pyfloat \<Rightarrow> pyfloat" where
  "fsin (Finite a) = Finite (round_to_double (sin a))"
| "fsin x = NaN"

definition float_pi :: real where
  "float_pi = round_to_double pi"

definition radians :: "pyfloat \<Rightarrow> pyfloat" where
  "radians angle = fmul angle (Finite (round_to_double (float_pi / 180)))"

record vec3 =
  vx :: pyfloat
  vy :: pyfloat
  vz :: pyfloat

text \<open>The attribute \<open>vertices\<close> of an entity: absent; a bound method, as on an
  \<open>LWPOLYLINE\<close> of the parsing library, which cannot be iterated; or a list of vertex
  objects, here the list of their \<open>dxf.location\<close>.\<close>

datatype vertices_attr = NoVertices | VerticesMethod | VertexList "vec3 list"

text \<open>An entity as the analyzer sees it: \<open>entity.dxftype()\<close>, the attributes of
  \<open>entity.dxf\<close> (among them the handle), and the attributes \<open>is_closed\<close>, \<open>bounding_box\<close>,
  \<open>vertices\<close> and \<open>handle\<close> of the entity itself. A field that is \<open>None\<close> is an attribute
  for which \<open>hasattr\<close> is false (for \<open>bounding_box\<close>: absent or falsy).
  \<open>has_handle_attribute\<close> tells whether the entity object itself has an attribute
  \<open>handle\<close>; if so it is the handle of \<open>entity.dxf\<close>. The entities of the parsing library
  have no such attribute.\<close>

record entity =
  dxftype :: string
  handle :: string
  has_handle_attribute :: bool
  layer :: "string option"
  is_closed :: bool
  lineweight :: "int option"
  start :: "vec3 option"
  end_pt :: "vec3 option"
  bounding_box :: "(vec3 \<times> vec3) option"
  vertices :: vertices_attr
  center :: "vec3 option"
  radius :: "pyfloat option"
  start_angle :: "pyfloat option"
  end_angle :: "pyfloat option"

text \<open>The truth values of \<open>layer.is_off\<close> and \<open>layer.is_frozen\<close>.\<close>

record dxf_layer =
  is_off :: bool
  is_frozen :: bool

text \<open>\<open>doc.layers\<close>: a mapping from names to layers, with the methods \<open>items()\<close> and
  \<open>keys()\<close>; or the layer table of the parsing library, which has neither method.\<close>

datatype layer_registry =
    LayerMapping "(string \<times> dxf_layer) list"
  | LayerTable "(string \<times> dxf_layer) list"

record document =
  modelspace :: "entity list"
  paperspaces :: "entity list list"
  layers :: layer_registry
  dxfversion :: "string option"
  file_size :: "nat option"

definition layouts :: "document \<Rightarrow> entity list list" where
  "layouts d = modelspace d # paperspaces d"

text \<open>\<open>layers.items()\<close> and \<open>layers.keys()\<close>.\<close>

definition layer_items :: "layer_registry \<Rightarrow> fault + (string \<times> dxf_layer) list" where
  "layer_items reg =
     (case reg of
        LayerMapping entries \<Rightarrow> Inr entries
      | LayerTable entries \<Rightarrow> Inl (AttributeError ''items''))"

definition layer_keys :: "layer_registry \<Rightarrow> fault + string list" where
  "layer_keys reg =
     (case reg of
        LayerMapping entries \<Rightarrow> Inr (map fst entries)
      | LayerTable entries \<Rightarrow> Inl (AttributeError ''keys''))"

text \<open>\<open>entity.handle\<close>, as opposed to \<open>entity.dxf.handle\<close>.\<close>

definition entity_handle :: "entity \<Rightarrow> fault + string" where
  "entity_handle entity =
     (if has_handle_attribute entity then Inr (handle entity)
      else Inl (AttributeError ''handle''))"

datatype error_type = CRITICAL | WARNING | EXPORT_ERROR

record error_report =
  error_id :: int
  error_type :: error_type
  affected_entities :: "string list"
  severity_score :: int

definition ErrorReport :: "int \<Rightarrow> error_type \<Rightarrow> string list \<Rightarrow> int \<Rightarrow> error_report" where
  "ErrorReport i t hs sev =
     \<lparr>error_id = i, error_type = t, affected_entities = hs, severity_score = sev\<rparr>"

text \<open>The mutable fields of \<open>DXFAnalyzer\<close>; the bound document is passed to each
  validator as an argument.\<close>

record analyzer =
  min_distance_mm :: pyfloat
  errors :: "error_report list"
  warnings :: "error_report list"
  export_errors :: "error_report list"
  total_entities :: int

definition add_error :: "error_report \<Rightarrow> analyzer \<Rightarrow> analyzer" where
  "add_error r s = s\<lparr>errors := errors s @ [r]\<rparr>"

definition add_warning :: "error_report \<Rightarrow> analyzer \<Rightarrow> analyzer" where
  "add_warning r s = s\<lparr>warnings := warnings s @ [r]\<rparr>"

definition add_export_error :: "error_report \<Rightarrow> analyzer \<Rightarrow> analyzer" where
  "add_export_error r s = s\<lparr>export_errors := export_errors s @ [r]\<rparr>"

subsection \<open>Strings\<close>

text \<open>\<open>str.upper\<close> on ASCII letters; other characters are unchanged.\<close>

definition upper_char :: "char \<Rightarrow> char" where
  "upper_char c =
     (let n = (of_char c :: nat) in if 97 \<le> n \<and> n \<le> 122 then char_of (n - 32) else c)"

definition upper :: "string \<Rightarrow> string" where
  "upper s = map upper_char s"

text \<open>\<open>a > b\<close> on Python strings: lexicographic by code point.\<close>

fun str_greater :: "string \<Rightarrow> string \<Rightarrow> bool" where
  "str_greater [] ys = False"
| "str_greater (x # xs) [] = True"
| "str_greater (x # xs) (y # ys) =
     ((of_char y :: nat) < of_char x \<or> (x = y \<and> str_greater xs ys))"

text \<open>\<open>ref in name\<close> on Python strings: \<open>ref\<close> occurs as a contiguous substring.\<close>

fun str_contains :: "string \<Rightarrow> string \<Rightarrow> bool" where
  "str_contains ref [] = (ref = [])"
| "str_contains ref (c # cs) = (take (length ref) (c # cs) = ref \<or> str_contains ref cs)"

subsection \<open>Geometry\<close>

definition VALID_LAYERS :: "string set" where
  "VALID_LAYERS = {''CUT'', ''ENGRAVE'', ''MARK'', ''ETCH'', ''SCORE'', ''REFERENCE''}"

definition MIN_SIZE_MM :: pyfloat where "MIN_SIZE_MM = Finite 5"
definition MAX_SIZE_MM :: pyfloat where "MAX_SIZE_MM = Finite 3000"
definition MAX_FILE_SIZE_MB :: pyfloat where "MAX_FILE_SIZE_MB = Finite 50"

type_synonym bounds = "pyfloat \<times> pyfloat \<times> pyfloat \<times> pyfloat"

text \<open>\<open>_get_entity_bounds\<close>: the entity's own bounding box if it has a truthy one,
  else the box of \<open>start\<close> and \<open>end\<close> if both are present, else \<open>None\<close>.\<close>

definition get_entity_bounds :: "entity \<Rightarrow> bounds option" where
  "get_entity_bounds entity =
     (case bounding_box entity of
        Some bbox \<Rightarrow> Some (vx (fst bbox), vy (fst bbox), vx (snd bbox), vy (snd bbox))
      | None \<Rightarrow>
          (case start entity of
             None \<Rightarrow> None
           | Some s \<Rightarrow>
               (case end_pt entity of
                  None \<Rightarrow> None
                | Some e \<Rightarrow>
                    Some (py_min (vx s) (vx e), py_min (vy s) (vy e),
                          py_max (vx s) (vx e), py_max (vy s) (vy e)))))"

definition is_vector_entity :: "entity \<Rightarrow> bool" where
  "is_vector_entity entity \<longleftrightarrow>
     dxftype entity \<in> set [''LINE'', ''LWPOLYLINE'', ''POLYLINE'', ''ARC'', ''CIRCLE'']"

text \<open>\<open>np.linspace(start, stop, num)\<close> for \<open>num > 1\<close>: the step is \<open>(stop - start) / (num - 1)\<close>,
  the \<open>i\<close>-th sample is \<open>i * step + start\<close> (when the step is zero,
  \<open>i / (num - 1) * (stop - start) + start\<close>), and the last sample is \<open>stop\<close> itself.\<close>

definition linspace :: "pyfloat \<Rightarrow> pyfloat \<Rightarrow> nat \<Rightarrow> pyfloat list" where
  "linspace start_value stop num =
     (let divisor = num - 1;
          delta = fsub stop start_value;
          step = fdiv_by delta (real divisor);
          sample = (\<lambda>i. if step = Finite 0
                         then fadd (fmul (to_double (real i / real divisor)) delta) start_value
                         else fadd (fmul (Finite (real i)) step) start_value)
      in map sample [0..<divisor] @ [stop])"

text \<open>A sampled point: its coordinates, and whether \<open>x\<close> and \<open>y\<close> are numpy scalars (the
  points of an arc or circle) rather than Python floats.\<close>

type_synonym sample_point = "bool \<times> vec3"

definition arc_points :: "vec3 \<Rightarrow> pyfloat \<Rightarrow> pyfloat list \<Rightarrow> sample_point list" where
  "arc_points c r angles =
     map (\<lambda>angle. (True, \<lparr>vx = fadd (vx c) (fmul r (fcos (radians angle))),
                          vy = fadd (vy c) (fmul r (fsin (radians angle))), vz = vz c\<rparr>))
       angles"

text \<open>\<open>[vertex.dxf.location for vertex in entity.vertices]\<close>.\<close>

definition vertex_locations :: "entity \<Rightarrow> fault + vec3 list" where
  "vertex_locations entity =
     (case vertices entity of
        NoVertices \<Rightarrow> Inl (AttributeError ''vertices'')
      | VerticesMethod \<Rightarrow> Inl (TypeError ''method object is not iterable'')
      | VertexList vs \<Rightarrow> Inr vs)"

definition get_entity_points :: "entity \<Rightarrow> fault + sample_point list" where
  "get_entity_points entity =
     (if dxftype entity = ''LINE'' then
        and_then (attr ''start'' (start entity)) (\<lambda>s.
        and_then (attr ''end'' (end_pt entity)) (\<lambda>e. Inr [(False, s), (False, e)]))
      else if dxftype entity \<in> set [''LWPOLYLINE'', ''POLYLINE''] then
        and_then (vertex_locations entity) (\<lambda>vs. Inr (map (Pair False) vs))
      else if dxftype entity = ''ARC'' then
        and_then (attr ''center'' (center entity)) (\<lambda>c.
        and_then (attr ''radius'' (radius entity)) (\<lambda>r.
        and_then (attr ''start_angle'' (start_angle entity)) (\<lambda>sa.
        and_then (attr ''end_angle'' (end_angle entity)) (\<lambda>ea.
          Inr (arc_points c r (linspace sa ea 72))))))
      else if dxftype entity = ''CIRCLE'' then
        and_then (attr ''center'' (center entity)) (\<lambda>c.
        and_then (attr ''radius'' (radius entity)) (\<lambda>r.
          Inr (arc_points c r (linspace (Finite 0) (Finite 360) 72))))
      else Inr [])"

text \<open>\<open>_calculate_distance\<close>: the squares of the three differences, added from left to
  right, and the square root. The difference of \<open>x\<close> or \<open>y\<close> is a numpy scalar when one
  of the two points is sampled from an arc or circle; the difference of \<open>z\<close> is always a
  Python float.\<close>

definition calculate_distance :: "sample_point \<Rightarrow> sample_point \<Rightarrow> fault + pyfloat" where
  "calculate_distance p1 p2 =
     (let np = fst p1 \<or> fst p2
      in and_then (fsquare np (fsub (vx (snd p2)) (vx (snd p1)))) (\<lambda>dx2.
         and_then (fsquare np (fsub (vy (snd p2)) (vy (snd p1)))) (\<lambda>dy2.
         and_then (fsquare False (fsub (vz (snd p2)) (vz (snd p1)))) (\<lambda>dz2.
           fsqrt (fadd (fadd dx2 dy2) dz2)))))"

text \<open>\<open>sum(...)\<close> over the distances of consecutive points, starting from \<open>0\<close> and
  adding from left to right, each addition rounded.\<close>

fun path_length :: "vec3 list \<Rightarrow> pyfloat \<Rightarrow> fault + pyfloat" where
  "path_length (p # q # rest) acc =
     and_then (calculate_distance (False, p) (False, q)) (\<lambda>segment.
       path_length (q # rest) (fadd acc segment))"
| "path_length ps acc = Inr acc"

definition calculate_entity_size :: "entity \<Rightarrow> fault + pyfloat" where
  "calculate_entity_size entity =
     (if dxftype entity = ''LINE'' then
        and_then (attr ''start'' (start entity)) (\<lambda>s.
        and_then (attr ''end'' (end_pt entity)) (\<lambda>e. calculate_distance (False, s) (False, e)))
      else if dxftype entity \<in> set [''LWPOLYLINE'', ''POLYLINE''] then
        and_then (vertex_locations entity) (\<lambda>points.
          if length points < 2 then Inr (Finite 0) else path_length points (Finite 0))
      else if dxftype entity = ''ARC'' then
        and_then (attr ''radius'' (radius entity)) (\<lambda>r.
        and_then (attr ''end_angle'' (end_angle entity)) (\<lambda>ea.
        and_then (attr ''start_angle'' (start_angle entity)) (\<lambda>sa.
          Inr (fdiv_by (fmul (fmul (fmul (Finite 2) (Finite float_pi)) r) (fsub ea sa)) 360))))
      else if dxftype entity = ''CIRCLE'' then
        and_then (attr ''radius'' (radius entity)) (\<lambda>r.
          Inr (fmul (fmul (Finite 2) (Finite float_pi)) r))
      else Inr (Finite 0))"

subsection \<open>Validators\<close>

definition count_total_entities :: "document \<Rightarrow> int" where
  "count_total_entities d = fold (\<lambda>layout count. count + int (length layout)) (layouts d) 0"

definition validate_file_structure :: "document \<Rightarrow> analyzer \<Rightarrow> analyzer" where
  "validate_file_structure d s =
     (case dxfversion d of
        None \<Rightarrow> s
      | Some version \<Rightarrow>
          if str_greater version ''AC1027''
          then add_export_error (ErrorReport 20 EXPORT_ERROR [''FILE''] 6) s else s)"

text \<open>The per-entity checks of \<open>_validate_critical_errors\<close>, in source order. Error 1
  reads \<open>entity.dxf.layer\<close> without a guard.\<close>

definition check_open_vector :: "entity \<Rightarrow> analyzer \<Rightarrow> fault + analyzer" where
  "check_open_vector entity s =
     (if dxftype entity \<in> set [''LWPOLYLINE'', ''POLYLINE''] \<and> \<not> is_closed entity then
        and_then (attr ''layer'' (layer entity)) (\<lambda>l.
          Inr (if upper l \<in> set [''CUT'', ''ENGRAVE'']
               then add_error (ErrorReport 1 CRITICAL [handle entity] 10) s else s))
      else Inr s)"

definition check_unassigned_layer :: "entity \<Rightarrow> analyzer \<Rightarrow> analyzer" where
  "check_unassigned_layer entity s =
     (if layer entity = None \<or> layer entity = Some ''0''
      then add_error (ErrorReport 2 CRITICAL [handle entity] 9) s else s)"

definition check_editable_text :: "entity \<Rightarrow> analyzer \<Rightarrow> analyzer" where
  "check_editable_text entity s =
     (if dxftype entity \<in> set [''TEXT'', ''MTEXT'']
      then add_error (ErrorReport 3 CRITICAL [handle entity] 8) s else s)"

definition check_invalid_layer :: "entity \<Rightarrow> analyzer \<Rightarrow> analyzer" where
  "check_invalid_layer entity s =
     (case layer entity of
        None \<Rightarrow> s
      | Some l \<Rightarrow>
          if upper l \<notin> VALID_LAYERS \<and> upper l \<noteq> ''0''
          then add_error (ErrorReport 4 CRITICAL [handle entity] 7) s else s)"

definition check_out_of_area :: "entity \<Rightarrow> analyzer \<Rightarrow> analyzer" where
  "check_out_of_area entity s =
     (case get_entity_bounds entity of
        None \<Rightarrow> s
      | Some (x_min, y_min, x_max, y_max) \<Rightarrow>
          if flt (Finite 2000) (fabs x_min) \<or> flt (Finite 2000) (fabs y_min)
             \<or> flt (Finite 2000) (fabs x_max) \<or> flt (Finite 2000) (fabs y_max)
          then add_error (ErrorReport 5 CRITICAL [handle entity] 8) s else s)"

definition check_lineweight :: "entity \<Rightarrow> analyzer \<Rightarrow> analyzer" where
  "check_lineweight entity s =
     (case lineweight entity of
        None \<Rightarrow> s
      | Some w \<Rightarrow> if 0 < w then add_error (ErrorReport 9 CRITICAL [handle entity] 6) s else s)"

text \<open>The literal \<open>0.001\<close> is the float nearest to one thousandth.\<close>

definition check_z_coordinate :: "entity \<Rightarrow> analyzer \<Rightarrow> analyzer" where
  "check_z_coordinate entity s =
     (case start entity of
        None \<Rightarrow> s
      | Some p \<Rightarrow>
          if flt (Finite (round_to_double (1 / 1000))) (fabs (vz p))
          then add_export_error (ErrorReport 23 EXPORT_ERROR [handle entity] 5) s else s)"

definition critical_entity :: "entity \<Rightarrow> analyzer \<Rightarrow> fault + analyzer" where
  "critical_entity entity s =
     and_then (check_open_vector entity s) (\<lambda>s1.
       Inr (check_z_coordinate entity (check_lineweight entity (check_out_of_area entity
             (check_invalid_layer entity (check_editable_text entity
               (check_unassigned_layer entity s1)))))))"

text \<open>\<open>_get_entity_hash\<close>. The digest is taken of the text of \<open>repr_data\<close>; the model
  keeps \<open>repr_data\<close> itself, so two entities have the same hash when their \<open>repr_data\<close>
  print alike. The text of a float shows its value and its sign, and \<open>round\<close> keeps the
  sign of its argument (\<open>round(-0.0004, 3)\<close> prints as \<open>-0.0\<close>): a rounded coordinate is
  kept with the sign of the coordinate. No read inside the \<open>try\<close> can raise here, so the
  result is never \<open>None\<close>.\<close>

type_synonym printed_float = "bool \<times> pyfloat"

type_synonym repr_data =
  "string \<times> string option
     \<times> ((printed_float \<times> printed_float) \<times> (printed_float \<times> printed_float)) option"

definition printed_round :: "pyfloat \<Rightarrow> nat \<Rightarrow> printed_float" where
  "printed_round x n = (flt x (Finite 0), py_round x n)"

definition get_entity_hash :: "entity \<Rightarrow> repr_data option" where
  "get_entity_hash entity =
     Some (dxftype entity, layer entity,
       (case start entity of
          None \<Rightarrow> None
        | Some s \<Rightarrow>
            (case end_pt entity of
               None \<Rightarrow> None
             | Some e \<Rightarrow>
                 Some ((printed_round (vx s) 3, printed_round (vy s) 3),
                       (printed_round (vx e) 3, printed_round (vy e) 3)))))"

text \<open>\<open>entity_hashes[entity_hash].append(handle)\<close> on a \<open>defaultdict(list)\<close>, which keeps
  its keys in insertion order.\<close>

fun dict_append :: "'k \<Rightarrow> 'v \<Rightarrow> ('k \<times> 'v list) list \<Rightarrow> ('k \<times> 'v list) list" where
  "dict_append k v [] = [(k, [v])]"
| "dict_append k v ((k', vs) # rest) =
     (if k = k' then (k', vs @ [v]) # rest else (k', vs) # dict_append k v rest)"

definition hash_entity ::
  "entity \<Rightarrow> (repr_data \<times> string list) list \<Rightarrow> (repr_data \<times> string list) list" where
  "hash_entity entity entity_hashes =
     (case get_entity_hash entity of
        None \<Rightarrow> entity_hashes
      | Some entity_hash \<Rightarrow> dict_append entity_hash (handle entity) entity_hashes)"

definition report_duplicates :: "repr_data \<times> string list \<Rightarrow> analyzer \<Rightarrow> analyzer" where
  "report_duplicates item s =
     (if 1 < length (snd item)
      then add_error (ErrorReport 7 CRITICAL (snd item) 7) s else s)"

definition check_duplicate_vectors :: "document \<Rightarrow> analyzer \<Rightarrow> analyzer" where
  "check_duplicate_vectors d s =
     fold report_duplicates (fold (fold hash_entity) (layouts d) []) s"

definition check_invisible_layer ::
  "document \<Rightarrow> string \<times> dxf_layer \<Rightarrow> analyzer \<Rightarrow> analyzer" where
  "check_invisible_layer d item s =
     (if is_off (snd item) \<or> is_frozen (snd item) then
        (let entity_count =
               fold (fold (\<lambda>entity n. if layer entity = Some (fst item) then n + 1 else n))
                 (layouts d) (0 :: int)
         in if 0 < entity_count
            then add_error (ErrorReport 6 CRITICAL [fst item] 8) s else s)
      else s)"

text \<open>\<open>_check_invisible_layers\<close> starts with \<open>self.doc.layers.items()\<close>.\<close>

definition check_invisible_layers :: "document \<Rightarrow> analyzer \<Rightarrow> fault + analyzer" where
  "check_invisible_layers d s =
     and_then (layer_items (layers d)) (\<lambda>entries. Inr (fold (check_invisible_layer d) entries s))"

definition validate_critical_errors :: "document \<Rightarrow> analyzer \<Rightarrow> fault + analyzer" where
  "validate_critical_errors d s =
     and_then (for_each (for_each critical_entity) (layouts d) s) (\<lambda>s1.
       check_invisible_layers d (check_duplicate_vectors d s1))"

definition check_scale :: "entity \<Rightarrow> analyzer \<Rightarrow> analyzer" where
  "check_scale entity s =
     (case get_entity_bounds entity of
        None \<Rightarrow> s
      | Some (x_min, y_min, x_max, y_max) \<Rightarrow>
          (let width = fsub x_max x_min; height = fsub y_max y_min;
               s1 = (if flt width MIN_SIZE_MM \<or> flt height MIN_SIZE_MM
                     then add_warning (ErrorReport 11 WARNING [handle entity] 4) s else s)
           in if flt MAX_SIZE_MM width \<or> flt MAX_SIZE_MM height
              then add_warning (ErrorReport 11 WARNING [handle entity] 5) s1 else s1))"

definition reference_layers :: "string list" where
  "reference_layers = [''LAYER 0'', ''SKETCH'', ''REFERENCE'', ''GUIDE'', ''DEFPOINTS'']"

definition check_reference_layer :: "entity \<Rightarrow> analyzer \<Rightarrow> analyzer" where
  "check_reference_layer entity s =
     (case layer entity of
        None \<Rightarrow> s
      | Some l \<Rightarrow>
          if list_ex (\<lambda>ref. str_contains ref (upper l)) reference_layers
          then add_warning (ErrorReport 15 WARNING [handle entity] 3) s else s)"

definition check_reference_layers :: "document \<Rightarrow> analyzer \<Rightarrow> analyzer" where
  "check_reference_layers d s = fold (fold check_reference_layer) (layouts d) s"

text \<open>\<open>_check_excessive_points\<close>: \<open>len(list(entity.vertices))\<close> raises when \<open>vertices\<close> is a
  method.\<close>

definition check_excessive_point :: "entity \<Rightarrow> analyzer \<Rightarrow> fault + analyzer" where
  "check_excessive_point entity s =
     (if dxftype entity \<in> set [''LWPOLYLINE'', ''POLYLINE''] then
        (case vertices entity of
           NoVertices \<Rightarrow> Inr s
         | VerticesMethod \<Rightarrow> Inl (TypeError ''method object is not iterable'')
         | VertexList vs \<Rightarrow>
             Inr (if 100 < length vs
                  then add_warning (ErrorReport 18 WARNING [handle entity] 4) s else s))
      else Inr s)"

definition check_excessive_points :: "document \<Rightarrow> analyzer \<Rightarrow> fault + analyzer" where
  "check_excessive_points d s = for_each (for_each check_excessive_point) (layouts d) s"

definition validate_warnings :: "document \<Rightarrow> analyzer \<Rightarrow> fault + analyzer" where
  "validate_warnings d s =
     check_excessive_points d (check_reference_layers d (fold (fold check_scale) (layouts d) s))"

text \<open>\<open>_validate_export_errors\<close>: every fault (an unreadable file size, a quotient too
  large) is swallowed by the bare \<open>except\<close>.\<close>

definition validate_export_errors :: "document \<Rightarrow> analyzer \<Rightarrow> analyzer" where
  "validate_export_errors d s =
     (case file_size d of
        None \<Rightarrow> s
      | Some n \<Rightarrow>
          (case true_divide (int n) (1024 * 1024) of
             Inl f \<Rightarrow> s
           | Inr file_size_mb \<Rightarrow>
               if flt MAX_FILE_SIZE_MB file_size_mb
               then add_export_error (ErrorReport 24 EXPORT_ERROR [''FILE''] 6) s else s))"

text \<open>\<open>_check_vector_distances\<close>: the body of the two innermost \<open>for\<close> statements,
  the one over \<open>entities[i+1:]\<close>, and the outer loop. The record is built from
  \<open>entity1.handle\<close> and \<open>entity2.handle\<close>, not from \<open>entity.dxf.handle\<close>.\<close>

definition distance_check ::
  "entity \<Rightarrow> entity \<Rightarrow> sample_point \<Rightarrow> sample_point \<Rightarrow> analyzer \<Rightarrow> fault + analyzer" where
  "distance_check entity1 entity2 p1 p2 s =
     and_then (calculate_distance p1 p2) (\<lambda>distance.
       if flt (Finite 0) distance \<and> flt distance (min_distance_mm s) then
         and_then (entity_handle entity1) (\<lambda>handle1.
         and_then (entity_handle entity2) (\<lambda>handle2.
           Inr (add_error (ErrorReport 25 CRITICAL [handle1, handle2] 10) s)))
       else Inr s)"

definition compare_entities ::
  "entity \<Rightarrow> sample_point list \<Rightarrow> entity \<Rightarrow> analyzer \<Rightarrow> fault + analyzer" where
  "compare_entities entity1 points1 entity2 s =
     (if is_vector_entity entity2 then
        and_then (get_entity_points entity2) (\<lambda>points2.
          for_each (\<lambda>p1. for_each (\<lambda>p2. distance_check entity1 entity2 p1 p2) points2)
            points1 s)
      else Inr s)"

fun distances_from :: "entity list \<Rightarrow> analyzer \<Rightarrow> fault + analyzer" where
  "distances_from [] s = Inr s"
| "distances_from (entity1 # rest) s =
     (if is_vector_entity entity1 then
        and_then (get_entity_points entity1) (\<lambda>points1.
        and_then (for_each (compare_entities entity1 points1) rest s) (distances_from rest))
      else distances_from rest s)"

definition check_vector_distances :: "document \<Rightarrow> analyzer \<Rightarrow> fault + analyzer" where
  "check_vector_distances d s = distances_from (modelspace d) s"

text \<open>\<open>_check_layer_usage\<close>: \<open>used_layers\<close> is a set, kept as a duplicate-free list.\<close>

definition check_layer_usage :: "document \<Rightarrow> analyzer \<Rightarrow> fault + analyzer" where
  "check_layer_usage d s =
     and_then
       (for_each (\<lambda>entity used_layers.
          and_then (attr ''layer'' (layer entity)) (\<lambda>l. Inr (List.insert l used_layers)))
          (modelspace d) [])
       (\<lambda>used_layers.
          Inr (if used_layers = []
               then add_error (ErrorReport 26 CRITICAL used_layers 10) s else s))"

definition validate_entity :: "entity \<Rightarrow> analyzer \<Rightarrow> fault + analyzer" where
  "validate_entity entity s =
     (let s1 = (if layer entity = None
                then add_error (ErrorReport 27 CRITICAL [handle entity] 10) s else s)
      in if is_vector_entity entity then
           and_then (calculate_entity_size entity) (\<lambda>size.
             Inr (if flt size (Finite 1)
                  then add_warning (ErrorReport 28 WARNING [handle entity] 5) s1 else s1))
         else Inr s1)"

definition validate_entities :: "document \<Rightarrow> analyzer \<Rightarrow> fault + analyzer" where
  "validate_entities d s = for_each validate_entity (modelspace d) s"

text \<open>\<open>_check_dimensions\<close>: the running extent \<open>(min_x, min_y, max_x, max_y)\<close> starts at
  \<open>(inf, inf, -inf, -inf)\<close>.\<close>

definition extend_extent :: "sample_point \<Rightarrow> bounds \<Rightarrow> bounds" where
  "extend_extent point ext =
     (case ext of
        (min_x, min_y, max_x, max_y) \<Rightarrow>
          (py_min min_x (vx (snd point)), py_min min_y (vy (snd point)),
           py_max max_x (vx (snd point)), py_max max_y (vy (snd point))))"

definition extent_entity :: "entity \<Rightarrow> bounds \<Rightarrow> fault + bounds" where
  "extent_entity entity ext =
     (if is_vector_entity entity then
        and_then (get_entity_points entity) (\<lambda>points. Inr (fold extend_extent points ext))
      else Inr ext)"

definition check_dimensions :: "document \<Rightarrow> analyzer \<Rightarrow> fault + analyzer" where
  "check_dimensions d s =
     and_then (for_each extent_entity (modelspace d) (PosInf, PosInf, NegInf, NegInf)) (\<lambda>ext.
       case ext of
         (min_x, min_y, max_x, max_y) \<Rightarrow>
           if min_x \<noteq> PosInf then
             (let width = fsub max_x min_x; height = fsub max_y min_y;
                  s1 = (if flt (Finite 3000) width \<or> flt (Finite 3000) height
                        then add_warning (ErrorReport 29 WARNING [''FILE''] 5) s else s)
              in Inr (if flt width (Finite 5) \<or> flt height (Finite 5)
                      then add_warning (ErrorReport 30 WARNING [''FILE''] 5) s1 else s1))
           else Inr s)"

subsection \<open>Health, summary, recommendations and the result\<close>

text \<open>\<open>_calculate_health_percentage\<close>. Line 492 divides two integers, multiplies the
  float quotient by 100 and subtracts the product from 100; each step rounds.\<close>

definition calculate_health_percentage :: "analyzer \<Rightarrow> fault + pyfloat" where
  "calculate_health_percentage s =
     (if total_entities s = 0 then Inr (Finite 0)
      else
        (let critical_weight = 10; warning_weight = 3; export_weight = 5;
             critical_points =
               sum_list (map (\<lambda>error. severity_score error * critical_weight) (errors s));
             warning_points =
               sum_list (map (\<lambda>warning. severity_score warning * warning_weight) (warnings s));
             export_points =
               sum_list (map (\<lambda>error. severity_score error * export_weight) (export_errors s));
             total_error_points = critical_points + warning_points + export_points;
             max_possible_errors = total_entities s * 100
         in if max_possible_errors = 0 then Inr (Finite 100)
            else
              and_then (true_divide total_error_points max_possible_errors) (\<lambda>quotient.
                (let health_percentage =
                       py_max (Finite 0) (fsub (Finite 100) (fmul quotient (Finite 100)))
                 in Inr (py_round health_percentage 2)))))"

datatype summary =
    Summary (summary_total_entities: int) (critical_errors_count: nat) (warnings_count: nat)
      (export_errors_count: nat) (layers_found: "string list") (dxf_version: string)
      (status: string)
  | ErrorSummary (status: string) (message: fault)

text \<open>\<open>_generate_summary\<close> calls \<open>self.doc.layers.keys()\<close>.\<close>

definition generate_summary :: "document \<Rightarrow> analyzer \<Rightarrow> fault + summary" where
  "generate_summary d s =
     and_then (layer_keys (layers d)) (\<lambda>names.
       Inr (Summary (total_entities s) (length (errors s)) (length (warnings s))
              (length (export_errors s)) names
              (case dxfversion d of None \<Rightarrow> ''Unknown'' | Some v \<Rightarrow> v)
              (if length (errors s) = 0 then ''READY''
               else if length (errors s) < 5 then ''NEEDS_REVIEW'' else ''CRITICAL'')))"

datatype recommendation =
    FixCriticalErrors | ClosePolylines | ConvertTexts | UseStandardLayers
  | RemoveDuplicates | ReviewWarnings | ReadyForCutting | VerifyFileIntegrity

definition generate_recommendations :: "analyzer \<Rightarrow> recommendation list" where
  "generate_recommendations s =
     (if errors s \<noteq> [] then [FixCriticalErrors] else [])
     @ (if list_ex (\<lambda>error. error_id error = 1) (errors s) then [ClosePolylines] else [])
     @ (if list_ex (\<lambda>error. error_id error = 3) (errors s) then [ConvertTexts] else [])
     @ (if list_ex (\<lambda>error. error_id error = 4) (errors s) then [UseStandardLayers] else [])
     @ (if list_ex (\<lambda>error. error_id error = 7) (errors s) then [RemoveDuplicates] else [])
     @ (if warnings s \<noteq> [] then [ReviewWarnings] else [])
     @ (if errors s = [] \<and> warnings s = [] then [ReadyForCutting] else [])"

text \<open>\<open>AnalysisResult\<close> without the file name and the time stamp.\<close>

record analysis_result =
  result_total_entities :: int
  health_percentage :: pyfloat
  critical_errors :: "error_report list"
  result_warnings :: "error_report list"
  result_export_errors :: "error_report list"
  summary :: summary
  recommendations :: "recommendation list"

definition reset_analysis :: "analyzer \<Rightarrow> analyzer" where
  "reset_analysis s = s\<lparr>errors := [], warnings := [], export_errors := [], total_entities := 0\<rparr>"

text \<open>The validators of the \<open>try\<close> block of \<open>analyze_dxf_file\<close>, after the file has loaded.\<close>

definition run_validators :: "document \<Rightarrow> analyzer \<Rightarrow> fault + analyzer" where
  "run_validators d s =
     and_then
       (validate_critical_errors d
          (validate_file_structure d (s\<lparr>total_entities := count_total_entities d\<rparr>)))
       (\<lambda>s1.
     and_then (validate_warnings d s1) (\<lambda>s2.
     and_then (check_vector_distances d (validate_export_errors d s2)) (\<lambda>s3.
     and_then (check_layer_usage d s3) (\<lambda>s4.
     and_then (validate_entities d s4) (\<lambda>s5.
     check_dimensions d s5)))))"

text \<open>The rest of the \<open>try\<close> block: the health, the recommendations and the result with
  its summary.\<close>

definition build_result :: "document \<Rightarrow> analyzer \<Rightarrow> fault + analysis_result" where
  "build_result d s =
     and_then (calculate_health_percentage s) (\<lambda>health.
     and_then (generate_summary d s) (\<lambda>summary_value.
       Inr \<lparr>result_total_entities = total_entities s,
            health_percentage = health,
            critical_errors = errors s,
            result_warnings = warnings s,
            result_export_errors = export_errors s,
            summary = summary_value,
            recommendations = generate_recommendations s\<rparr>))"

definition load_failure_result :: "fault \<Rightarrow> analysis_result" where
  "load_failure_result e =
     \<lparr>result_total_entities = 0, health_percentage = Finite 0,
      critical_errors = [ErrorReport 0 CRITICAL [''FILE''] 10],
      result_warnings = [], result_export_errors = [],
      summary = ErrorSummary ''ERROR'' e,
      recommendations = [VerifyFileIntegrity]\<rparr>"

text \<open>\<open>DXFAnalyzer.analyze_dxf_file\<close>: \<open>readfile\<close> is the outcome of \<open>ezdxf.readfile\<close>
  (\<open>Inl\<close> when it raises). The \<open>except\<close> clause sees every fault of the \<open>try\<close> block.\<close>

definition analyze_dxf_file :: "analyzer \<Rightarrow> fault + document \<Rightarrow> analysis_result" where
  "analyze_dxf_file self readfile =
     (case and_then readfile (\<lambda>d.
             and_then (run_validators d (reset_analysis self)) (build_result d)) of
        Inr result \<Rightarrow> result
      | Inl e \<Rightarrow> load_failure_result e)"

text \<open>\<open>DXFAnalyzer(min_distance_mm)\<close>.\<close>

definition DXFAnalyzer :: "real \<Rightarrow> analyzer" where
  "DXFAnalyzer min_distance =
     \<lparr>min_distance_mm = Finite min_distance, errors = [], warnings = [], export_errors = [],
      total_entities = 0\<rparr>"

section \<open>Definitions used to state the properties\<close>

subsection \<open>The health formula\<close>

definition criticalPoints :: "error_report list \<Rightarrow> int" where
  "criticalPoints rs = sum_list (map (\<lambda>r. severity_score r * 10) rs)"

definition warningPoints :: "error_report list \<Rightarrow> int" where
  "warningPoints rs = sum_list (map (\<lambda>r. severity_score r * 3) rs)"

definition exportPoints :: "error_report list \<Rightarrow> int" where
  "exportPoints rs = sum_list (map (\<lambda>r. severity_score r * 5) rs)"

text \<open>Rounding a real number to \<open>n\<close> decimals, ties to even.\<close>

definition round_decimals :: "real \<Rightarrow> nat \<Rightarrow> real" where
  "round_decimals x n = of_int (round_half_even (x * 10 ^ n)) / 10 ^ n"

text \<open>The formula in the words of the specification, over the real numbers.\<close>

definition spec_health ::
  "int \<Rightarrow> error_report list \<Rightarrow> error_report list \<Rightarrow> error_report list \<Rightarrow> real" where
  "spec_health totalEntities critical warning export =
     round_decimals
       (max 0 (100 - 100 * real_of_int (criticalPoints critical + warningPoints warning
                                     + exportPoints export)
                            / real_of_int (totalEntities * 100))) 2"

text \<open>The formula in floating point: the quotient of the points by \<open>totalEntities * 100\<close>,
  times 100, subtracted from 100, each step rounded to binary64; the maximum with 0; and
  the float nearest to the rounding of that value to two decimals. A quotient too large
  for a float raises.\<close>

definition float_health ::
  "int \<Rightarrow> error_report list \<Rightarrow> error_report list \<Rightarrow> error_report list
     \<Rightarrow> fault + pyfloat" where
  "float_health totalEntities critical warning export =
     and_then
       (true_divide (criticalPoints critical + warningPoints warning + exportPoints export)
          (totalEntities * 100))
       (\<lambda>quotient.
          Inr (py_round (py_max (Finite 0) (fsub (Finite 100) (fmul quotient (Finite 100)))) 2))"

subsection \<open>The distance check\<close>

text \<open>The pairs of sampled points of two entities whose distance is positive and below
  the minimum \<open>m\<close>, in the order of the two innermost \<open>for\<close> statements.\<close>

definition offending_pairs ::
  "pyfloat \<Rightarrow> sample_point list \<Rightarrow> sample_point list \<Rightarrow> (sample_point \<times> sample_point) list" where
  "offending_pairs m points1 points2 =
     filter (\<lambda>pq. case calculate_distance (fst pq) (snd pq) of
                    Inl f \<Rightarrow> False
                  | Inr distance \<Rightarrow> flt (Finite 0) distance \<and> flt distance m)
       (List.product points1 points2)"

subsection \<open>The records a validator can append\<close>

text \<open>For a document \<open>d\<close>, every record that some validator appends belongs to
  \<open>possible_reports d\<close>; \<open>reports_ok\<close> is the invariant of the three lists and of the
  entity counter.\<close>

definition layer_entries :: "layer_registry \<Rightarrow> (string \<times> dxf_layer) list" where
  "layer_entries reg = (case reg of LayerMapping entries \<Rightarrow> entries | LayerTable entries \<Rightarrow> entries)"

definition entity_reports :: "entity \<Rightarrow> error_report set" where
  "entity_reports e =
     {ErrorReport 1 CRITICAL [handle e] 10, ErrorReport 2 CRITICAL [handle e] 9,
      ErrorReport 3 CRITICAL [handle e] 8, ErrorReport 4 CRITICAL [handle e] 7,
      ErrorReport 9 CRITICAL [handle e] 6, ErrorReport 23 EXPORT_ERROR [handle e] 5,
      ErrorReport 15 WARNING [handle e] 3, ErrorReport 18 WARNING [handle e] 4}
     \<union> (if get_entity_bounds e = None then {}
        else {ErrorReport 5 CRITICAL [handle e] 8, ErrorReport 11 WARNING [handle e] 4,
              ErrorReport 11 WARNING [handle e] 5})"

definition modelspace_reports :: "entity \<Rightarrow> error_report set" where
  "modelspace_reports e =
     {ErrorReport 27 CRITICAL [handle e] 10, ErrorReport 28 WARNING [handle e] 5}"

definition possible_reports :: "document \<Rightarrow> error_report set" where
  "possible_reports d =
     (\<Union>e \<in> set (concat (layouts d)). entity_reports e)
     \<union> (\<Union>e \<in> set (modelspace d). modelspace_reports e)
     \<union> {ErrorReport 7 CRITICAL hs 7 | hs.
          1 < length hs \<and> set hs \<subseteq> handle ` set (concat (layouts d))}
     \<union> {ErrorReport 6 CRITICAL [n] 8 | n. n \<in> fst ` set (layer_entries (layers d))}
     \<union> {ErrorReport 25 CRITICAL [handle e1, handle e2] 10 | e1 e2.
          e1 \<in> set (modelspace d) \<and> e2 \<in> set (modelspace d)}
     \<union> {ErrorReport 20 EXPORT_ERROR [''FILE''] 6, ErrorReport 24 EXPORT_ERROR [''FILE''] 6,
        ErrorReport 29 WARNING [''FILE''] 5, ErrorReport 30 WARNING [''FILE''] 5,
        ErrorReport 26 CRITICAL [] 10}"

definition reports_ok :: "document \<Rightarrow> analyzer \<Rightarrow> bool" where
  "reports_ok d s \<longleftrightarrow>
     set (errors s) \<union> set (warnings s) \<union> set (export_errors s) \<subseteq> possible_reports d
     \<and> total_entities s = count_total_entities d"

subsection \<open>Concrete documents\<close>

definition point :: "real \<Rightarrow> real \<Rightarrow> real \<Rightarrow> vec3" where
  "point x y z = \<lparr>vx = Finite x, vy = Finite y, vz = Finite z\<rparr>"

text \<open>An entity with a type, a handle and a layer, as the parsing library provides it:
  the entity object has no attribute \<open>handle\<close> of its own.\<close>

definition blank_entity :: "string \<Rightarrow> string \<Rightarrow> string option \<Rightarrow> entity" where
  "blank_entity t h l =
     \<lparr>dxftype = t, handle = h, has_handle_attribute = False, layer = l, is_closed = False,
      lineweight = None, start = None, end_pt = None, bounding_box = None,
      vertices = NoVertices, center = None, radius = None, start_angle = None,
      end_angle = None\<rparr>"

definition line_entity :: "string \<Rightarrow> string option \<Rightarrow> vec3 \<Rightarrow> vec3 \<Rightarrow> entity" where
  "line_entity h l p q = (blank_entity ''LINE'' h l)\<lparr>start := Some p, end_pt := Some q\<rparr>"

definition polyline_entity :: "string \<Rightarrow> string option \<Rightarrow> vec3 list \<Rightarrow> entity" where
  "polyline_entity h l vs = (blank_entity ''POLYLINE'' h l)\<lparr>vertices := VertexList vs\<rparr>"

text \<open>The same entity as an object that also has the attribute \<open>handle\<close>.\<close>

definition with_handle_attribute :: "entity \<Rightarrow> entity" where
  "with_handle_attribute e = e\<lparr>has_handle_attribute := True\<rparr>"

text \<open>A document whose layers are a mapping without entries.\<close>

definition plain_document :: "entity list \<Rightarrow> entity list list \<Rightarrow> document" where
  "plain_document msp others =
     \<lparr>modelspace = msp, paperspaces = others, layers = LayerMapping [],
      dxfversion = Some ''AC1027'', file_size = Some 1024\<rparr>"

text \<open>A document as the parsing library returns it: its layers are a layer table, here
  with the layer \<open>0\<close>, whose \<open>is_off\<close> and \<open>is_frozen\<close> are bound methods and so true.\<close>

definition parsed_document :: "entity list \<Rightarrow> entity list list \<Rightarrow> document" where
  "parsed_document msp others =
     \<lparr>modelspace = msp, paperspaces = others,
      layers = LayerTable [(''0'', \<lparr>is_off = True, is_frozen = True\<rparr>)],
      dxfversion = Some ''AC1027'', file_size = Some 1024\<rparr>"

text \<open>One line of length 10 on layer CUT.\<close>

definition one_line :: document where
  "one_line = plain_document [line_entity ''A'' (Some ''CUT'') (point 0 0 0) (point 10 0 0)] []"

text \<open>Two parallel lines of length 10, half a unit apart, as objects with the attribute
  \<open>handle\<close>.\<close>

definition close_lines :: document where
  "close_lines = plain_document
     [with_handle_attribute (line_entity ''A'' (Some ''CUT'') (point 0 0 0) (point 10 0 0)),
      with_handle_attribute
        (line_entity ''B'' (Some ''CUT'') (point 0 (1 / 2) 0) (point 10 (1 / 2) 0))] []"

text \<open>The same two lines in a document of the parsing library.\<close>

definition parsed_close_lines :: document where
  "parsed_close_lines = parsed_document
     [line_entity ''A'' (Some ''CUT'') (point 0 0 0) (point 10 0 0),
      line_entity ''B'' (Some ''CUT'') (point 0 (1 / 2) 0) (point 10 (1 / 2) 0)] [Nil]"

text \<open>Two lines on the \<open>x\<close> axis in a document of the parsing library; the end of the
  first is half a unit from the start of the second.\<close>

definition parsed_collinear_lines :: document where
  "parsed_collinear_lines = parsed_document
     [line_entity ''A'' (Some ''CUT'') (point 0 0 0) (point 10 0 0),
      line_entity ''B'' (Some ''CUT'') (point (21 / 2) 0 0) (point 20 0 0)] [Nil]"

text \<open>A loaded document without entities: an empty model space and one empty paper space.\<close>

definition empty_document :: document where
  "empty_document = plain_document [] [Nil]"


text \<open>Two open polylines of different length, 50 units apart, on the same layer.\<close>

definition two_polylines :: document where
  "two_polylines = plain_document
     [polyline_entity ''P1'' (Some ''MARK'') [point 0 0 0, point 10 0 0],
      polyline_entity ''P2'' (Some ''MARK'') [point 0 50 0, point 30 50 0]] []"

text \<open>A text on layer CUT and a line that has no layer attribute.\<close>

definition text_and_layerless_line :: document where
  "text_and_layerless_line = plain_document
     [blank_entity ''TEXT'' ''A'' (Some ''CUT''),
      line_entity ''B'' None (point 0 0 0) (point 10 0 0)] []"

text \<open>A line in the model space and the same line again in a paper space.\<close>

definition paper_space_duplicate :: document where
  "paper_space_duplicate = plain_document
     [line_entity ''A'' (Some ''CUT'') (point 0 0 0) (point 10 0 0)]
     ([line_entity ''B'' (Some ''CUT'') (point 0 0 0) (point 10 0 0)] # Nil)"

text \<open>A polyline of length one half; it has neither a bounding box nor \<open>start\<close>/\<open>end\<close>.\<close>

definition short_polyline :: document where
  "short_polyline = plain_document
     [polyline_entity ''P'' (Some ''MARK'') [point 0 0 0, point (1 / 2) 0 0]] []"

text \<open>A line and a polyline two units above it.\<close>

definition line_and_polyline :: document where
  "line_and_polyline = plain_document
     [line_entity ''A'' (Some ''CUT'') (point 0 0 0) (point 10 0 0),
      polyline_entity ''P'' (Some ''MARK'') [point 0 2 0, point 30 2 0]] []"

text \<open>An analyzer state with eight entities and 469 error points: four critical records
  of severity 10, one of severity 6, and a warning of severity 3.\<close>

definition health_tie_state :: analyzer where
  "health_tie_state =
     \<lparr>min_distance_mm = Finite 1,
      errors = [ErrorReport 1 CRITICAL [''A''] 10, ErrorReport 1 CRITICAL [''B''] 10,
                ErrorReport 1 CRITICAL [''C''] 10, ErrorReport 1 CRITICAL [''D''] 10,
                ErrorReport 9 CRITICAL [''E''] 6],
      warnings = [ErrorReport 15 WARNING [''F''] 3],
      export_errors = [], total_entities = 8\<rparr>"

section \<open>Rounding to binary64\<close>

lemma round_half_even_of_int [simp]: "round_half_even (of_int n) = n"
  by (simp add: round_half_even_def)

lemma round_half_even_bounds:
  assumes "of_int a \<le> y" and "y \<le> of_int b"
  shows "a \<le> round_half_even y \<and> round_half_even y \<le> b"
proof -
  have lo: "a \<le> \<lfloor>y\<rfloor>" using assms(1) by (simp add: le_floor_iff)
  have hi: "\<lfloor>y\<rfloor> \<le> b" using assms(2) by (simp add: floor_le_iff)
  show ?thesis
  proof (cases "\<lfloor>y\<rfloor> = b")
    case True
    with assms(2) have "y - of_int \<lfloor>y\<rfloor> \<le> 0" by simp
    then have "y - of_int \<lfloor>y\<rfloor> < 1 / 2" by simp
    with lo True show ?thesis
      by (simp add: round_half_even_def Let_def)
  next
    case False
    with hi have "\<lfloor>y\<rfloor> + 1 \<le> b" by simp
    with lo hi show ?thesis
      by (auto simp: round_half_even_def Let_def)
  qed
qed

lemma pow2_pos [simp]: "0 < pow2 e"
  by (simp add: pow2_def)

lemma pow2_add: "pow2 (a + b) = pow2 a * pow2 b"
  by (simp add: pow2_def powr_add)

lemma pow2_nat: "pow2 (int n) = 2 ^ n"
  by (simp add: pow2_def powr_realpow)

lemma pow2_neg_nat: "pow2 (- int n) = 1 / 2 ^ n"
  by (simp add: pow2_def powr_minus powr_realpow divide_inverse)

lemma pow2_mono: "a \<le> b \<Longrightarrow> pow2 a \<le> pow2 b"
  by (simp add: pow2_def)

lemma floor_log2_bounds:
  assumes "x \<noteq> 0"
  shows "pow2 \<lfloor>log 2 \<bar>x\<bar>\<rfloor> \<le> \<bar>x\<bar>" and "\<bar>x\<bar> < pow2 (\<lfloor>log 2 \<bar>x\<bar>\<rfloor> + 1)"
proof -
  have pos: "0 < \<bar>x\<bar>" using assms by simp
  from floor_log_eq_powr_iff [OF pos, of 2 "\<lfloor>log 2 \<bar>x\<bar>\<rfloor>"]
  show "pow2 \<lfloor>log 2 \<bar>x\<bar>\<rfloor> \<le> \<bar>x\<bar>" and "\<bar>x\<bar> < pow2 (\<lfloor>log 2 \<bar>x\<bar>\<rfloor> + 1)"
    by (simp_all add: pow2_def)
qed

lemma floor_log2_eq:
  assumes "pow2 k \<le> \<bar>x\<bar>" and "\<bar>x\<bar> < pow2 (k + 1)"
  shows "\<lfloor>log 2 \<bar>x\<bar>\<rfloor> = k"
proof -
  have pos: "0 < \<bar>x\<bar>"
    using assms(1) pow2_pos [of k] by linarith
  from floor_log_eq_powr_iff [OF pos, of 2 k] assms show ?thesis
    by (simp add: pow2_def)
qed

lemma floor_log2_less:
  assumes "x \<noteq> 0" and "\<bar>x\<bar> < pow2 k"
  shows "\<lfloor>log 2 \<bar>x\<bar>\<rfloor> < k"
proof (rule ccontr)
  assume "\<not> \<lfloor>log 2 \<bar>x\<bar>\<rfloor> < k"
  then have "pow2 k \<le> pow2 \<lfloor>log 2 \<bar>x\<bar>\<rfloor>"
    by (intro pow2_mono) simp
  with floor_log2_bounds(1) [OF assms(1)] assms(2) show False by linarith
qed

text \<open>Evaluation with a known binary exponent.\<close>

lemma round_to_double_eval:
  assumes "pow2 k \<le> \<bar>x\<bar>" and "\<bar>x\<bar> < pow2 (k + 1)" and "- 1022 \<le> k"
  shows "round_to_double x =
           real_of_int (round_half_even (x / pow2 (k - 52))) * pow2 (k - 52)"
proof -
  have "ulp_exponent x = k - 52"
    using floor_log2_eq [OF assms(1,2)] assms(3) by (simp add: ulp_exponent_def)
  then show ?thesis
    by (simp add: round_to_double_def Let_def)
qed

lemma round_to_double_zero [simp]: "round_to_double 0 = 0"
  by (simp add: round_to_double_def round_half_even_def)

lemma round_to_double_dyadic:
  assumes "\<bar>m\<bar> < 2 ^ 53" and "n \<le> 1074"
  shows "round_to_double (real_of_int m / 2 ^ n) = real_of_int m / 2 ^ n"
proof (cases "m = 0")
  case True
  then show ?thesis by simp
next
  case False
  let ?x = "real_of_int m / 2 ^ n"
  have x0: "?x \<noteq> 0" using False by simp
  have "\<bar>?x\<bar> = real_of_int \<bar>m\<bar> * pow2 (- int n)"
    by (simp add: pow2_neg_nat abs_divide)
  also have "\<dots> < 2 ^ 53 * pow2 (- int n)"
    using assms(1) by (intro mult_strict_right_mono) (simp_all add: of_int_less_numeral_power_cancel_iff)
  also have "\<dots> = pow2 (53 - int n)"
    using pow2_add [of 53 "- int n"] pow2_nat [of 53] by simp
  finally have lt: "\<bar>?x\<bar> < pow2 (53 - int n)" .
  have "\<lfloor>log 2 \<bar>?x\<bar>\<rfloor> < 53 - int n"
    using x0 lt by (rule floor_log2_less)
  then have e: "ulp_exponent ?x \<le> - int n"
    using assms(2) by (simp add: ulp_exponent_def)
  define j where "j = nat (- int n - ulp_exponent ?x)"
  have j: "int j = - int n - ulp_exponent ?x"
    using e by (simp add: j_def)
  define p where "p = pow2 (ulp_exponent ?x)"
  have p: "0 < p" by (simp add: p_def)
  have "pow2 (- int n) = pow2 (int j) * p"
    using pow2_add [of "int j" "ulp_exponent ?x"] j by (simp add: p_def)
  then have inv: "1 / 2 ^ n = 2 ^ j * p"
    by (simp add: pow2_neg_nat pow2_nat)
  have "?x / p = real_of_int m * (1 / 2 ^ n) / p" by simp
  also have "\<dots> = real_of_int m * (2 ^ j * p) / p" by (simp only: inv)
  also have "\<dots> = real_of_int (m * 2 ^ j)" using p by simp
  finally have scale: "?x / p = real_of_int (m * 2 ^ j)" .
  have "real_of_int (round_half_even (?x / p)) * p = (?x / p) * p"
    unfolding scale round_half_even_of_int ..
  also have "\<dots> = ?x" using p by simp
  finally show ?thesis
    by (simp add: round_to_double_def Let_def p_def)
qed

lemma round_to_double_of_int:
  "\<bar>m\<bar> < 2 ^ 53 \<Longrightarrow> round_to_double (real_of_int m) = real_of_int m"
  using round_to_double_dyadic [of m 0] by simp

lemma ulp_exponent_le:
  assumes "x \<noteq> 0" and "\<bar>x\<bar> \<le> pow2 j" and "- 1074 \<le> j"
  shows "ulp_exponent x \<le> j"
proof -
  have "0 < pow2 j" by simp
  moreover have "pow2 (j + 1) = pow2 j * 2"
    using pow2_add [of j 1] pow2_nat [of 1] by simp
  ultimately have "\<bar>x\<bar> < pow2 (j + 1)"
    using assms(2) by linarith
  from floor_log2_less [OF assms(1) this] assms(3) show ?thesis
    by (simp add: ulp_exponent_def)
qed

text \<open>Rounding does not cross a power of two.\<close>

lemma round_to_double_upper:
  assumes "0 \<le> x" and "x \<le> pow2 j" and "- 1074 \<le> j"
  shows "round_to_double x \<le> pow2 j"
proof (cases "x = 0")
  case True
  then show ?thesis using pow2_pos [of j] by (simp add: less_imp_le)
next
  case False
  define e where "e = ulp_exponent x"
  have e: "e \<le> j"
    unfolding e_def using False assms by (intro ulp_exponent_le) simp_all
  define i where "i = nat (j - e)"
  have i: "int i = j - e" using e by (simp add: i_def)
  have "pow2 j = pow2 (int i + e)" using i by simp
  then have split: "pow2 j = 2 ^ i * pow2 e"
    by (simp only: pow2_add pow2_nat)
  have "x / pow2 e \<le> 2 ^ i"
    using assms(2) by (simp add: split pos_divide_le_eq)
  then have "x / pow2 e \<le> real_of_int (2 ^ i)" by simp
  moreover have "real_of_int 0 \<le> x / pow2 e" using assms(1) by (simp add: less_imp_le)
  ultimately have "round_half_even (x / pow2 e) \<le> 2 ^ i"
    using round_half_even_bounds by blast
  then have "real_of_int (round_half_even (x / pow2 e)) \<le> 2 ^ i"
    by (metis of_int_le_iff of_int_numeral of_int_power)
  then have "real_of_int (round_half_even (x / pow2 e)) * pow2 e \<le> 2 ^ i * pow2 e"
    by (intro mult_right_mono) (simp_all add: less_imp_le)
  then show ?thesis
    by (simp add: round_to_double_def Let_def e_def [symmetric] split)
qed

lemma round_to_double_lower:
  assumes "pow2 j \<le> x" and "- 1074 \<le> j"
  shows "pow2 j \<le> round_to_double x"
proof -
  have pos: "0 < x" using assms(1) pow2_pos [of j] by linarith
  then have x0: "x \<noteq> 0" by simp
  define k where "k = \<lfloor>log 2 \<bar>x\<bar>\<rfloor>"
  define e where "e = ulp_exponent x"
  have jk: "j \<le> k"
  proof (rule ccontr)
    assume "\<not> j \<le> k"
    then have "k + 1 \<le> j" by simp
    then have "pow2 (k + 1) \<le> pow2 j" by (rule pow2_mono)
    with floor_log2_bounds(2) [OF x0] assms(1) pos show False
      by (simp add: k_def)
  qed
  have ek: "e \<le> k"
    using jk assms(2) by (simp add: e_def ulp_exponent_def k_def)
  define i where "i = nat (k - e)"
  have i: "int i = k - e" using ek by (simp add: i_def)
  have "pow2 k = pow2 (int i + e)" using i by simp
  then have split: "pow2 k = 2 ^ i * pow2 e"
    by (simp only: pow2_add pow2_nat)
  have "pow2 k \<le> x"
    using floor_log2_bounds(1) [OF x0] pos by (simp add: k_def)
  then have "2 ^ i \<le> x / pow2 e"
    by (simp add: split pos_le_divide_eq)
  then have "real_of_int (2 ^ i) \<le> x / pow2 e" by simp
  moreover have "x / pow2 e \<le> real_of_int (\<lceil>x / pow2 e\<rceil>)" by simp
  ultimately have "2 ^ i \<le> round_half_even (x / pow2 e)"
    using round_half_even_bounds by blast
  then have "2 ^ i \<le> real_of_int (round_half_even (x / pow2 e))"
    by (metis of_int_le_iff of_int_numeral of_int_power)
  then have "2 ^ i * pow2 e \<le> real_of_int (round_half_even (x / pow2 e)) * pow2 e"
    by (intro mult_right_mono) (simp_all add: less_imp_le)
  then have "pow2 k \<le> round_to_double x"
    by (simp add: round_to_double_def Let_def e_def [symmetric] split)
  with pow2_mono [OF jk] show ?thesis by linarith
qed

lemma round_to_double_nonneg:
  assumes "0 \<le> x"
  shows "0 \<le> round_to_double x"
proof -
  have "real_of_int 0 \<le> x / pow2 (ulp_exponent x)"
    using assms by (simp add: less_imp_le)
  moreover have "x / pow2 (ulp_exponent x) \<le> real_of_int \<lceil>x / pow2 (ulp_exponent x)\<rceil>"
    by simp
  ultimately have "0 \<le> round_half_even (x / pow2 (ulp_exponent x))"
    using round_half_even_bounds by blast
  then have "0 \<le> real_of_int (round_half_even (x / pow2 (ulp_exponent x)))
                   * pow2 (ulp_exponent x)"
    by (intro mult_nonneg_nonneg) (simp_all add: less_imp_le)
  then show ?thesis
    by (simp add: round_to_double_def Let_def)
qed


lemma round_half_even_numeral [simp]: "round_half_even (numeral w) = numeral w"
  using round_half_even_of_int [of "numeral w"] by simp

lemma round_half_even_zero [simp]: "round_half_even 0 = 0"
  using round_half_even_of_int [of 0] by simp

lemma round_half_even_one [simp]: "round_half_even 1 = 1"
  using round_half_even_of_int [of 1] by simp

lemma pow2_numeral: "pow2 (numeral n) = 2 ^ numeral n"
  using pow2_nat [of "numeral n"] by simp

lemma pow2_neg_numeral: "pow2 (- numeral n) = 1 / 2 ^ numeral n"
  using pow2_neg_nat [of "numeral n"] by simp

lemma pow2_zero: "pow2 0 = 1"
  by (simp add: pow2_def)

lemma pow2_one: "pow2 1 = 2"
  by (simp add: pow2_def)

lemma pow2_neg_one: "pow2 (- 1) = 1 / 2"
  using pow2_neg_nat [of 1] by simp

lemmas pow2_simps = pow2_numeral pow2_neg_numeral pow2_zero pow2_one pow2_neg_one

text \<open>Numbers that binary64 represents exactly are results of every operation that
  yields them.\<close>

lemma to_double_exact:
  assumes "round_to_double x = x" and "\<bar>x\<bar> < 2 ^ 1024"
  shows "to_double x = Finite x"
  using assms by (simp add: to_double_def)

lemma to_double_dyadic:
  assumes "\<bar>m\<bar> < 2 ^ 53" and "n \<le> 1074"
  shows "to_double (real_of_int m / 2 ^ n) = Finite (real_of_int m / 2 ^ n)"
proof (rule to_double_exact)
  show "round_to_double (real_of_int m / 2 ^ n) = real_of_int m / 2 ^ n"
    using assms by (rule round_to_double_dyadic)
  have "(1::real) \<le> 2 ^ n" by simp
  then have "\<bar>real_of_int m\<bar> * 1 \<le> \<bar>real_of_int m\<bar> * 2 ^ n"
    by (intro mult_left_mono) simp_all
  then have "\<bar>real_of_int m / 2 ^ n\<bar> \<le> real_of_int \<bar>m\<bar>"
    by (simp add: abs_divide field_simps)
  also have "\<dots> < 2 ^ 53"
    using assms(1) by (simp add: of_int_less_numeral_power_cancel_iff)
  also have "\<dots> < (2::real) ^ 1024"
    by simp
  finally show "\<bar>real_of_int m / 2 ^ n\<bar> < 2 ^ 1024" .
qed

lemma round_to_double_numeral:
  "(numeral w :: int) < 9007199254740992 \<Longrightarrow> round_to_double (numeral w) = numeral w"
  using round_to_double_of_int [of "numeral w"] by simp

lemma round_to_double_one [simp]: "round_to_double 1 = 1"
  using round_to_double_of_int [of 1] by simp

lemma to_double_numeral:
  "(numeral w :: int) < 9007199254740992 \<Longrightarrow> to_double (numeral w) = Finite (numeral w)"
  using to_double_dyadic [of "numeral w" 0] by simp

lemma to_double_neg_numeral:
  "(numeral w :: int) < 9007199254740992 \<Longrightarrow>
   to_double (- numeral w) = Finite (- numeral w)"
  using to_double_dyadic [of "- numeral w" 0] by simp

lemma to_double_zero [simp]: "to_double 0 = Finite 0"
  using to_double_dyadic [of 0 0] by simp

lemma to_double_one [simp]: "to_double 1 = Finite 1"
  using to_double_dyadic [of 1 0] by simp

lemma to_double_fractions:
  "to_double (1 / 2) = Finite (1 / 2)"
  "to_double (1 / 4) = Finite (1 / 4)"
  "to_double (401 / 4) = Finite (401 / 4)"
  "to_double (1 / 1024) = Finite (1 / 1024)"
  using to_double_dyadic [of 1 1] to_double_dyadic [of 1 2] to_double_dyadic [of 401 2]
    to_double_dyadic [of 1 10]
  by simp_all

lemma round_to_double_half [simp]: "round_to_double (1 / 2) = 1 / 2"
  using round_to_double_dyadic [of 1 1] by simp

text \<open>The length of a segment of length at least one is not below one.\<close>

lemma round_to_double_sqrt_ge_one:
  "1 \<le> a \<Longrightarrow> (round_to_double (sqrt a) < 1) = False"
  using round_to_double_lower [of 0 "sqrt a"] by (simp add: pow2_zero not_less)

lemma round_to_double_thousandth: "(round_to_double (1 / 1000) < 0) = False"
  using round_to_double_nonneg [of "1 / 1000"] by (simp add: not_less)

lemma sqrt_values:
  "sqrt 100 = 10" "sqrt 900 = 30" "sqrt (1 / 4) = 1 / 2"
  by (rule real_sqrt_unique; simp add: power2_eq_square)+

lemmas float_eval = to_double_numeral to_double_neg_numeral to_double_fractions
  round_to_double_numeral round_to_double_sqrt_ge_one round_to_double_thousandth sqrt_values
  fsub_def py_min_def py_max_def

section \<open>Evaluation\<close>

lemmas fixture_defs = point_def blank_entity_def line_entity_def polyline_entity_def
  with_handle_attribute_def plain_document_def parsed_document_def

lemmas eval_defs = layouts_def ErrorReport_def add_error_def add_warning_def add_export_error_def
  and_then_def attr_def upper_def upper_char_def VALID_LAYERS_def MIN_SIZE_MM_def MAX_SIZE_MM_def
  MAX_FILE_SIZE_MB_def get_entity_bounds_def is_vector_entity_def get_entity_points_def
  vertex_locations_def entity_handle_def layer_items_def layer_keys_def true_divide_def
  calculate_distance_def calculate_entity_size_def count_total_entities_def
  validate_file_structure_def check_open_vector_def check_unassigned_layer_def
  check_editable_text_def check_invalid_layer_def check_out_of_area_def check_lineweight_def
  check_z_coordinate_def critical_entity_def printed_round_def get_entity_hash_def
  hash_entity_def
  report_duplicates_def check_duplicate_vectors_def check_invisible_layer_def
  check_invisible_layers_def validate_critical_errors_def check_scale_def reference_layers_def
  check_reference_layer_def check_reference_layers_def check_excessive_point_def
  check_excessive_points_def validate_warnings_def validate_export_errors_def
  distance_check_def compare_entities_def check_vector_distances_def check_layer_usage_def
  validate_entity_def validate_entities_def extend_extent_def extent_entity_def
  check_dimensions_def reset_analysis_def run_validators_def DXFAnalyzer_def
  float_eval Let_def

lemma run_one_line:
  "run_validators one_line (reset_analysis (DXFAnalyzer 1)) =
     Inr \<lparr>min_distance_mm = Finite 1, errors = [],
          warnings = [ErrorReport 11 WARNING [''A''] 4, ErrorReport 30 WARNING [''FILE''] 5],
          export_errors = [], total_entities = 1\<rparr>"
  by (simp add: one_line_def fixture_defs eval_defs)

lemma analyze_success:
  "run_validators d (reset_analysis self) = Inr s \<Longrightarrow> build_result d s = Inr res \<Longrightarrow>
   analyze_dxf_file self (Inr d) = res"
  by (simp add: analyze_dxf_file_def and_then_def)

lemma analyze_fault:
  "run_validators d (reset_analysis self) = Inl e \<Longrightarrow>
   analyze_dxf_file self (Inr d) = load_failure_result e"
  by (simp add: analyze_dxf_file_def and_then_def)

lemma analyze_result_fault:
  "run_validators d (reset_analysis self) = Inr s \<Longrightarrow> build_result d s = Inl e \<Longrightarrow>
   analyze_dxf_file self (Inr d) = load_failure_result e"
  by (simp add: analyze_dxf_file_def and_then_def)

lemma analyze_load_failure: "analyze_dxf_file self (Inl e) = load_failure_result e"
  by (simp add: analyze_dxf_file_def and_then_def)

text \<open>The records of a result when the health and the summary can be computed.\<close>

lemma build_result_records:
  "build_result d s = Inr res \<Longrightarrow>
   result_total_entities res = total_entities s \<and> critical_errors res = errors s
   \<and> result_warnings res = warnings s \<and> result_export_errors res = export_errors s
   \<and> calculate_health_percentage s = Inr (health_percentage res)
   \<and> generate_summary d s = Inr (summary res)"
  by (auto simp: build_result_def and_then_def split: sum.splits)

lemma build_result_plain:
  assumes "layers d = LayerMapping entries" and "calculate_health_percentage s = Inr h"
  shows "build_result d s =
     Inr \<lparr>result_total_entities = total_entities s, health_percentage = h,
          critical_errors = errors s, result_warnings = warnings s,
          result_export_errors = export_errors s,
          summary = Summary (total_entities s) (length (errors s)) (length (warnings s))
              (length (export_errors s)) (map fst entries)
              (case dxfversion d of None \<Rightarrow> ''Unknown'' | Some v \<Rightarrow> v)
              (if length (errors s) = 0 then ''READY''
               else if length (errors s) < 5 then ''NEEDS_REVIEW'' else ''CRITICAL''),
          recommendations = generate_recommendations s\<rparr>"
  using assms by (simp add: build_result_def generate_summary_def layer_keys_def and_then_def)

lemma run_empty_document:
  "run_validators empty_document (reset_analysis (DXFAnalyzer 1)) =
     Inr \<lparr>min_distance_mm = Finite 1, errors = [ErrorReport 26 CRITICAL [] 10], warnings = [],
          export_errors = [], total_entities = 0\<rparr>"
  by (simp add: empty_document_def fixture_defs eval_defs)


lemma run_two_polylines:
  "run_validators two_polylines (reset_analysis (DXFAnalyzer 1)) =
     Inr \<lparr>min_distance_mm = Finite 1, errors = [ErrorReport 7 CRITICAL [''P1'', ''P2''] 7],
          warnings = [], export_errors = [], total_entities = 2\<rparr>"
  by (simp add: two_polylines_def fixture_defs eval_defs)

lemma run_text_and_layerless_line:
  "run_validators text_and_layerless_line (reset_analysis (DXFAnalyzer 1)) =
     Inl (AttributeError ''layer'')"
  by (simp add: text_and_layerless_line_def fixture_defs eval_defs)

lemma run_close_lines:
  "run_validators close_lines (reset_analysis (DXFAnalyzer 1)) =
     Inr \<lparr>min_distance_mm = Finite 1,
          errors = [ErrorReport 25 CRITICAL [''A'', ''B''] 10,
                    ErrorReport 25 CRITICAL [''A'', ''B''] 10],
          warnings = [ErrorReport 11 WARNING [''A''] 4, ErrorReport 11 WARNING [''B''] 4,
                      ErrorReport 30 WARNING [''FILE''] 5],
          export_errors = [], total_entities = 2\<rparr>"
  by (simp add: close_lines_def fixture_defs eval_defs)

lemma run_parsed_close_lines:
  "run_validators parsed_close_lines (reset_analysis (DXFAnalyzer 1)) =
     Inl (AttributeError ''items'')"
  by (simp add: parsed_close_lines_def fixture_defs eval_defs)

lemma run_parsed_collinear_lines:
  "run_validators parsed_collinear_lines (reset_analysis (DXFAnalyzer 1)) =
     Inl (AttributeError ''items'')"
  by (simp add: parsed_collinear_lines_def fixture_defs eval_defs)

lemma run_paper_space_duplicate:
  "run_validators paper_space_duplicate (reset_analysis (DXFAnalyzer 1)) =
     Inr \<lparr>min_distance_mm = Finite 1,
          errors = [ErrorReport 7 CRITICAL [''A'', ''B''] 7],
          warnings = [ErrorReport 11 WARNING [''A''] 4, ErrorReport 11 WARNING [''B''] 4,
                      ErrorReport 30 WARNING [''FILE''] 5],
          export_errors = [], total_entities = 2\<rparr>"
  by (simp add: paper_space_duplicate_def fixture_defs eval_defs)

lemma run_short_polyline:
  "run_validators short_polyline (reset_analysis (DXFAnalyzer 1)) =
     Inr \<lparr>min_distance_mm = Finite 1, errors = [],
          warnings = [ErrorReport 28 WARNING [''P''] 5, ErrorReport 30 WARNING [''FILE''] 5],
          export_errors = [], total_entities = 1\<rparr>"
  by (simp add: short_polyline_def fixture_defs eval_defs)

lemma run_line_and_polyline:
  "run_validators line_and_polyline (reset_analysis (DXFAnalyzer 1)) =
     Inr \<lparr>min_distance_mm = Finite 1, errors = [],
          warnings = [ErrorReport 11 WARNING [''A''] 4, ErrorReport 30 WARNING [''FILE''] 5],
          export_errors = [], total_entities = 2\<rparr>"
  by (simp add: line_and_polyline_def fixture_defs eval_defs)

section \<open>Where records come from\<close>

lemma for_each_preserves:
  assumes "\<And>x a b. x \<in> set xs \<Longrightarrow> P a \<Longrightarrow> body x a = Inr b \<Longrightarrow> P b"
    and "P s" and "for_each body xs s = Inr s'"
  shows "P s'"
  using assms
proof (induction xs arbitrary: s)
  case Nil
  then show ?case by simp
next
  case (Cons x xs)
  from Cons.prems(3) obtain s1 where s1: "body x s = Inr s1" "for_each body xs s1 = Inr s'"
    by (auto split: sum.splits)
  have "P s1"
    using Cons.prems(1) [of x s s1] Cons.prems(2) s1(1) by simp
  moreover have "P b" if "y \<in> set xs" "P a" "body y a = Inr b" for y a b
    using Cons.prems(1) [of y a b] that by simp
  ultimately show ?case
    using Cons.IH [of s1] s1(2) by blast
qed

lemma fold_preserves:
  assumes "\<And>x a. x \<in> set xs \<Longrightarrow> P a \<Longrightarrow> P (f x a)" and "P s"
  shows "P (fold f xs s)"
  using assms by (induction xs arbitrary: s) simp_all

lemma fold_fold_preserves:
  assumes "\<And>x a. x \<in> set (concat xss) \<Longrightarrow> P a \<Longrightarrow> P (f x a)" and "P s"
  shows "P (fold (fold f) xss s)"
  using assms
proof (induction xss arbitrary: s)
  case Nil
  then show ?case by simp
next
  case (Cons xs xss)
  have "P (fold f xs s)"
    by (rule fold_preserves [where P = P]) (simp_all add: Cons.prems)
  then have "P (fold (fold f) xss (fold f xs s))"
    by (rule Cons.IH [rotated]) (simp add: Cons.prems)
  then show ?case by simp
qed

lemma for_each_for_each_preserves:
  assumes "\<And>x a b. x \<in> set (concat xss) \<Longrightarrow> P a \<Longrightarrow> body x a = Inr b \<Longrightarrow> P b"
    and "P s" and "for_each (for_each body) xss s = Inr s'"
  shows "P s'"
proof (rule for_each_preserves [where P = P, OF _ assms(2,3)])
  fix xs a b
  assume xs: "xs \<in> set xss" and "P a" and run: "for_each body xs a = Inr b"
  show "P b"
  proof (rule for_each_preserves [where P = P, OF _ \<open>P a\<close> run])
    fix x a' b'
    assume "x \<in> set xs" "P a'" "body x a' = Inr b'"
    with xs show "P b'"
      using assms(1) [of x a' b'] by auto
  qed
qed

lemma reports_ok_add [simp]:
  "reports_ok d (add_error r s) \<longleftrightarrow> reports_ok d s \<and> r \<in> possible_reports d"
  "reports_ok d (add_warning r s) \<longleftrightarrow> reports_ok d s \<and> r \<in> possible_reports d"
  "reports_ok d (add_export_error r s) \<longleftrightarrow> reports_ok d s \<and> r \<in> possible_reports d"
  by (auto simp: reports_ok_def add_error_def add_warning_def add_export_error_def)

lemma entity_reports_possible:
  "e \<in> set (concat (layouts d)) \<Longrightarrow> r \<in> entity_reports e \<Longrightarrow> r \<in> possible_reports d"
  unfolding possible_reports_def by blast

lemma modelspace_reports_possible:
  "e \<in> set (modelspace d) \<Longrightarrow> r \<in> modelspace_reports e \<Longrightarrow> r \<in> possible_reports d"
  unfolding possible_reports_def by blast

lemma file_reports_possible [simp]:
  "ErrorReport 20 EXPORT_ERROR [''FILE''] 6 \<in> possible_reports d"
  "ErrorReport 24 EXPORT_ERROR [''FILE''] 6 \<in> possible_reports d"
  "ErrorReport 29 WARNING [''FILE''] 5 \<in> possible_reports d"
  "ErrorReport 30 WARNING [''FILE''] 5 \<in> possible_reports d"
  "ErrorReport 26 CRITICAL [] 10 \<in> possible_reports d"
  by (simp_all add: possible_reports_def)

lemma critical_entity_ok:
  assumes "e \<in> set (concat (layouts d))" and "reports_ok d s" and "critical_entity e s = Inr s'"
  shows "reports_ok d s'"
proof -
  note in_e = entity_reports_possible [OF assms(1)]
  from assms(3) obtain s1 where s1: "check_open_vector e s = Inr s1"
    and s': "s' = check_z_coordinate e (check_lineweight e (check_out_of_area e
             (check_invalid_layer e (check_editable_text e (check_unassigned_layer e s1)))))"
    by (auto simp: critical_entity_def and_then_def split: sum.splits)
  have 1: "reports_ok d s1"
    using s1 assms(2)
    by (auto simp: check_open_vector_def and_then_def attr_def entity_reports_def
          split: if_splits option.splits intro!: in_e)
  have 2: "reports_ok d (check_unassigned_layer e s1)"
    using 1 by (auto simp: check_unassigned_layer_def entity_reports_def intro!: in_e)
  have 3: "reports_ok d (check_editable_text e (check_unassigned_layer e s1))"
    using 2 by (auto simp: check_editable_text_def entity_reports_def intro!: in_e)
  have 4: "reports_ok d (check_invalid_layer e (check_editable_text e
             (check_unassigned_layer e s1)))"
    using 3 by (auto simp: check_invalid_layer_def entity_reports_def
                  split: option.splits intro!: in_e)
  have 5: "reports_ok d (check_out_of_area e t)" if "reports_ok d t" for t
    using that by (auto simp: check_out_of_area_def entity_reports_def
                     split: option.splits intro!: in_e)
  have 6: "reports_ok d (check_lineweight e t)" if "reports_ok d t" for t
    using that by (auto simp: check_lineweight_def entity_reports_def
                     split: option.splits intro!: in_e)
  have 7: "reports_ok d (check_z_coordinate e t)" if "reports_ok d t" for t
    using that by (auto simp: check_z_coordinate_def entity_reports_def
                     split: option.splits intro!: in_e)
  show ?thesis
    unfolding s' by (intro 7 6 5 4)
qed

lemma dict_append_handles:
  assumes "\<forall>hs \<in> snd ` set dict. set hs \<subseteq> H" and "h \<in> H"
  shows "\<forall>hs \<in> snd ` set (dict_append k h dict). set hs \<subseteq> H"
  using assms by (induction k h dict rule: dict_append.induct) auto

lemma entity_hashes_handles:
  "\<forall>hs \<in> snd ` set (fold (fold hash_entity) (layouts d) []).
     set hs \<subseteq> handle ` set (concat (layouts d))"
proof -
  let ?H = "handle ` set (concat (layouts d))"
  let ?P = "\<lambda>dict. \<forall>hs \<in> snd ` set dict. set hs \<subseteq> ?H"
  have step: "?P (hash_entity e dict)" if "e \<in> set (concat (layouts d))" "?P dict" for e dict
    using that dict_append_handles [of dict ?H "handle e"]
    by (auto simp: hash_entity_def split: option.splits)
  have "?P (fold (fold hash_entity) (layouts d) [])"
  proof (rule fold_fold_preserves [where P = ?P])
    show "?P []" by simp
  qed (rule step)
  then show ?thesis .
qed

lemma check_duplicate_vectors_ok:
  assumes "reports_ok d s"
  shows "reports_ok d (check_duplicate_vectors d s)"
proof -
  have "reports_ok d (fold report_duplicates dict s)"
    if "\<forall>hs \<in> snd ` set dict. set hs \<subseteq> handle ` set (concat (layouts d))" for dict
  proof (rule fold_preserves [where P = "reports_ok d"])
    fix item a
    assume "item \<in> set dict" and "reports_ok d a"
    with that have "set (snd item) \<subseteq> handle ` set (concat (layouts d))"
      by auto
    then have "1 < length (snd item) \<Longrightarrow>
                 ErrorReport 7 CRITICAL (snd item) 7 \<in> possible_reports d"
      unfolding possible_reports_def by blast
    with \<open>reports_ok d a\<close> show "reports_ok d (report_duplicates item a)"
      by (simp add: report_duplicates_def)
  qed (rule assms)
  with entity_hashes_handles show ?thesis
    by (simp add: check_duplicate_vectors_def)
qed

lemma check_invisible_layers_ok:
  assumes "reports_ok d s" and "check_invisible_layers d s = Inr s'"
  shows "reports_ok d s'"
proof -
  from assms(2) obtain entries where entries: "layers d = LayerMapping entries"
    and s': "s' = fold (check_invisible_layer d) entries s"
    by (auto simp: check_invisible_layers_def layer_items_def and_then_def
          split: layer_registry.splits)
  show ?thesis
    unfolding s'
  proof (rule fold_preserves [where P = "reports_ok d"])
    fix item a
    assume "item \<in> set entries" and "reports_ok d a"
    then have "ErrorReport 6 CRITICAL [fst item] 8 \<in> possible_reports d"
      unfolding possible_reports_def by (auto simp: entries layer_entries_def)
    with \<open>reports_ok d a\<close> show "reports_ok d (check_invisible_layer d item a)"
      by (simp add: check_invisible_layer_def Let_def)
  qed (rule assms(1))
qed

lemma validate_critical_errors_ok:
  assumes "reports_ok d s" and "validate_critical_errors d s = Inr s'"
  shows "reports_ok d s'"
proof -
  from assms(2) obtain s1 where s1: "for_each (for_each critical_entity) (layouts d) s = Inr s1"
    and s': "check_invisible_layers d (check_duplicate_vectors d s1) = Inr s'"
    by (auto simp: validate_critical_errors_def and_then_def split: sum.splits)
  have "reports_ok d s1"
    by (rule for_each_for_each_preserves [where P = "reports_ok d", OF _ assms(1) s1])
       (rule critical_entity_ok)
  then have "reports_ok d (check_duplicate_vectors d s1)"
    by (rule check_duplicate_vectors_ok)
  then show ?thesis
    using s' by (rule check_invisible_layers_ok)
qed

lemma fold_fold_entities_ok:
  assumes "\<And>e a. e \<in> set (concat (layouts d)) \<Longrightarrow> reports_ok d a \<Longrightarrow> reports_ok d (f e a)"
    and "reports_ok d s"
  shows "reports_ok d (fold (fold f) (layouts d) s)"
  using assms(2) by (rule fold_fold_preserves [where P = "reports_ok d", rotated]) (rule assms(1))

lemma validate_warnings_ok:
  assumes "reports_ok d s" and "validate_warnings d s = Inr s'"
  shows "reports_ok d s'"
proof -
  have scale: "reports_ok d (check_scale e a)"
    if "e \<in> set (concat (layouts d))" "reports_ok d a" for e a
    using that
    by (auto simp: check_scale_def Let_def entity_reports_def split: option.splits
          intro!: entity_reports_possible [of e d])
  have ref: "reports_ok d (check_reference_layer e a)"
    if "e \<in> set (concat (layouts d))" "reports_ok d a" for e a
    using that
    by (auto simp: check_reference_layer_def entity_reports_def split: option.splits
          intro!: entity_reports_possible [of e d])
  have exc: "reports_ok d b"
    if "e \<in> set (concat (layouts d))" "reports_ok d a" "check_excessive_point e a = Inr b"
    for e a b
  proof -
    have "ErrorReport 18 WARNING [handle e] 4 \<in> possible_reports d"
      by (rule entity_reports_possible [OF that(1)]) (simp add: entity_reports_def)
    with that(2,3) show ?thesis
      by (auto simp: check_excessive_point_def split: vertices_attr.splits if_splits)
  qed
  have "reports_ok d (fold (fold check_scale) (layouts d) s)"
    using scale assms(1) by (rule fold_fold_entities_ok)
  with ref have "reports_ok d (check_reference_layers d (fold (fold check_scale) (layouts d) s))"
    unfolding check_reference_layers_def by (rule fold_fold_entities_ok)
  then show ?thesis
    using assms(2) unfolding validate_warnings_def check_excessive_points_def
    by (rule for_each_for_each_preserves [where P = "reports_ok d", rotated]) (rule exc)
qed

lemma file_validators_ok:
  "reports_ok d s \<Longrightarrow> reports_ok d (validate_file_structure d s)"
  "reports_ok d s \<Longrightarrow> reports_ok d (validate_export_errors d s)"
  by (simp_all add: validate_file_structure_def validate_export_errors_def Let_def
        split: option.splits sum.splits)

lemma distance_check_ok:
  assumes "e1 \<in> set (modelspace d)" and "e2 \<in> set (modelspace d)" and "reports_ok d s"
    and "distance_check e1 e2 p1 p2 s = Inr s'"
  shows "reports_ok d s'"
proof -
  have "ErrorReport 25 CRITICAL [handle e1, handle e2] 10 \<in> possible_reports d"
    using assms(1,2) unfolding possible_reports_def by blast
  with assms(3,4) show ?thesis
    by (auto simp: distance_check_def entity_handle_def and_then_def
          split: sum.splits if_splits)
qed

lemma compare_entities_ok:
  assumes "e1 \<in> set (modelspace d)" and "e2 \<in> set (modelspace d)" and "reports_ok d s"
    and "compare_entities e1 ps1 e2 s = Inr s'"
  shows "reports_ok d s'"
proof (cases "is_vector_entity e2")
  case False
  with assms(3,4) show ?thesis
    by (simp add: compare_entities_def)
next
  case True
  with assms(4) obtain ps2 where
    run: "for_each (\<lambda>p1. for_each (\<lambda>p2. distance_check e1 e2 p1 p2) ps2) ps1 s = Inr s'"
    by (auto simp: compare_entities_def and_then_def split: sum.splits)
  show ?thesis
  proof (rule for_each_preserves [where P = "reports_ok d", OF _ assms(3) run])
    fix p1 a b
    assume "reports_ok d a" and inner: "for_each (\<lambda>p2. distance_check e1 e2 p1 p2) ps2 a = Inr b"
    then show "reports_ok d b"
      by (rule for_each_preserves [where P = "reports_ok d", rotated])
         (rule distance_check_ok [OF assms(1,2)])
  qed
qed

lemma distances_from_ok:
  assumes "set es \<subseteq> set (modelspace d)" and "reports_ok d s"
    and "distances_from es s = Inr s'"
  shows "reports_ok d s'"
  using assms
proof (induction es arbitrary: s)
  case Nil
  then show ?case by simp
next
  case (Cons e1 es)
  from Cons.prems(1) have e1: "e1 \<in> set (modelspace d)" and es: "set es \<subseteq> set (modelspace d)"
    by simp_all
  show ?case
  proof (cases "is_vector_entity e1")
    case False
    with Cons.prems(3) have "distances_from es s = Inr s'" by simp
    with Cons.IH [OF es Cons.prems(2)] show ?thesis .
  next
    case True
    with Cons.prems(3) obtain ps1 s1 where
      s1: "for_each (compare_entities e1 ps1) es s = Inr s1" and
      rest: "distances_from es s1 = Inr s'"
      by (auto simp: and_then_def split: sum.splits)
    have "reports_ok d s1"
    proof (rule for_each_preserves [where P = "reports_ok d", OF _ Cons.prems(2) s1])
      fix e2 a b
      assume "e2 \<in> set es" "reports_ok d a" "compare_entities e1 ps1 e2 a = Inr b"
      with es e1 show "reports_ok d b"
        by (auto intro: compare_entities_ok)
    qed
    with Cons.IH [OF es _ rest] show ?thesis .
  qed
qed

lemma check_layer_usage_ok:
  assumes "reports_ok d s" and "check_layer_usage d s = Inr s'"
  shows "reports_ok d s'"
  using assms
  by (auto simp: check_layer_usage_def and_then_def split: sum.splits if_splits)

lemma validate_entities_ok:
  assumes "reports_ok d s" and "validate_entities d s = Inr s'"
  shows "reports_ok d s'"
proof (rule for_each_preserves [where P = "reports_ok d", OF _ assms(1)
         assms(2) [unfolded validate_entities_def]])
  fix e a b
  assume e: "e \<in> set (modelspace d)" and a: "reports_ok d a" and
    run: "validate_entity e a = Inr b"
  note in_e = modelspace_reports_possible [OF e]
  from a run show "reports_ok d b"
    by (auto simp: validate_entity_def Let_def and_then_def modelspace_reports_def
          split: if_splits sum.splits intro!: in_e)
qed

lemma check_dimensions_ok:
  assumes "reports_ok d s" and "check_dimensions d s = Inr s'"
  shows "reports_ok d s'"
  using assms
  by (auto simp: check_dimensions_def and_then_def Let_def
        split: sum.splits prod.splits if_splits)

lemma run_validators_ok:
  assumes "run_validators d (reset_analysis self) = Inr s"
  shows "reports_ok d s"
proof -
  let ?s0 = "validate_file_structure d
               ((reset_analysis self)\<lparr>total_entities := count_total_entities d\<rparr>)"
  from assms obtain s1 s2 s3 s4 s5 where
    1: "validate_critical_errors d ?s0 = Inr s1" and
    2: "validate_warnings d s1 = Inr s2" and
    3: "check_vector_distances d (validate_export_errors d s2) = Inr s3" and
    4: "check_layer_usage d s3 = Inr s4" and
    5: "validate_entities d s4 = Inr s5" and
    6: "check_dimensions d s5 = Inr s"
    by (auto simp: run_validators_def and_then_def split: sum.splits)
  have "reports_ok d ?s0"
    by (rule file_validators_ok) (simp add: reports_ok_def reset_analysis_def)
  then have "reports_ok d s1"
    using 1 by (rule validate_critical_errors_ok)
  then have "reports_ok d s2"
    using 2 by (rule validate_warnings_ok)
  then have "reports_ok d (validate_export_errors d s2)"
    by (rule file_validators_ok)
  then have "reports_ok d s3"
    using 3 unfolding check_vector_distances_def
    by (rule distances_from_ok [OF subset_refl])
  then have "reports_ok d s4"
    using 4 by (rule check_layer_usage_ok)
  then have "reports_ok d s5"
    using 5 by (rule validate_entities_ok)
  then show ?thesis
    using 6 by (rule check_dimensions_ok)
qed

text \<open>A result is the load-failure result, or it carries the lists of a state that the
  validators have produced.\<close>

lemma analyze_cases:
  obtains e where "analyze_dxf_file self (Inr d) = load_failure_result e"
  | s where "run_validators d (reset_analysis self) = Inr s"
      and "build_result d s = Inr (analyze_dxf_file self (Inr d))"
proof (cases "run_validators d (reset_analysis self)")
  case (Inl e)
  then show ?thesis
    using that(1) by (simp add: analyze_fault)
next
  case run: (Inr s)
  show ?thesis
  proof (cases "build_result d s")
    case (Inl e)
    with run show ?thesis
      using that(1) by (simp add: analyze_result_fault)
  next
    case (Inr res)
    with run show ?thesis
      using that(2) [of s] by (simp add: analyze_success)
  qed
qed

text \<open>Every record of a result whose id is not 0 comes from a validator.\<close>

lemma result_reports_possible:
  assumes "r \<in> set (critical_errors (analyze_dxf_file self (Inr d)))
             \<union> set (result_warnings (analyze_dxf_file self (Inr d)))
             \<union> set (result_export_errors (analyze_dxf_file self (Inr d)))"
    and "error_id r \<noteq> 0"
  shows "r \<in> possible_reports d"
proof (cases rule: analyze_cases [of self d])
  case (1 e)
  with assms show ?thesis
    by (simp add: load_failure_result_def ErrorReport_def)
next
  case (2 s)
  from build_result_records [OF 2(2)] assms(1) run_validators_ok [OF 2(1)] show ?thesis
    by (auto simp: reports_ok_def)
qed

section \<open>Health score\<close>

lemma to_double_eval:
  assumes "round_to_double x = y" and "\<bar>y\<bar> < 2 ^ 1024"
  shows "to_double x = Finite y"
  using assms by (simp add: to_double_def)

lemma to_double_bounded:
  assumes "0 \<le> x" and "x \<le> 1024"
  shows "to_double x = Finite (round_to_double x)"
proof -
  have "x \<le> pow2 10" using assms(2) by (simp add: pow2_simps)
  with assms(1) have "round_to_double x \<le> pow2 10"
    by (intro round_to_double_upper) simp_all
  moreover have "0 \<le> round_to_double x"
    using assms(1) by (rule round_to_double_nonneg)
  ultimately have "\<bar>round_to_double x\<bar> < 2 ^ 1024"
    by (simp add: pow2_simps)
  then show ?thesis
    by (simp add: to_double_def)
qed

text \<open>The health is computed without a fault when the error points are not negative and
  at most 1024 times \<open>total_entities * 100\<close>.\<close>

lemma calculate_health_percentage_defined:
  assumes "0 \<le> criticalPoints (errors s) + warningPoints (warnings s)
                 + exportPoints (export_errors s)"
    and "0 \<le> total_entities s"
    and "criticalPoints (errors s) + warningPoints (warnings s) + exportPoints (export_errors s)
           \<le> 1024 * (total_entities s * 100)"
  shows "\<exists>h. calculate_health_percentage s = Inr h"
proof (cases "total_entities s = 0")
  case True
  then show ?thesis
    by (simp add: calculate_health_percentage_def)
next
  case False
  let ?P = "criticalPoints (errors s) + warningPoints (warnings s)
              + exportPoints (export_errors s)"
  let ?M = "total_entities s * 100"
  from False assms(2) have M: "0 < ?M" by simp
  then have "0 \<le> real_of_int ?P / real_of_int ?M" "real_of_int ?P / real_of_int ?M \<le> 1024"
    using assms(1,3) by (simp_all add: pos_divide_le_eq)
  then have "to_double (real_of_int ?P / real_of_int ?M)
               = Finite (round_to_double (real_of_int ?P / real_of_int ?M))"
    by (rule to_double_bounded)
  then show ?thesis
    using False M
    by (simp add: calculate_health_percentage_def true_divide_def and_then_def Let_def
          criticalPoints_def warningPoints_def exportPoints_def)
qed

text \<open>The lists of a result on a document whose layers are a mapping.\<close>

lemma analyze_records:
  assumes "run_validators d (reset_analysis self) = Inr s"
    and "layers d = LayerMapping entries"
    and "\<exists>h. calculate_health_percentage s = Inr h"
  shows "critical_errors (analyze_dxf_file self (Inr d)) = errors s"
    and "result_warnings (analyze_dxf_file self (Inr d)) = warnings s"
    and "result_export_errors (analyze_dxf_file self (Inr d)) = export_errors s"
    and "result_total_entities (analyze_dxf_file self (Inr d)) = total_entities s"
    and "calculate_health_percentage s = Inr (health_percentage (analyze_dxf_file self (Inr d)))"
    and "status (summary (analyze_dxf_file self (Inr d))) =
           (if length (errors s) = 0 then ''READY''
            else if length (errors s) < 5 then ''NEEDS_REVIEW'' else ''CRITICAL'')"
proof -
  from assms(3) obtain h where h: "calculate_health_percentage s = Inr h" by blast
  note res = analyze_success [OF assms(1) build_result_plain [OF assms(2) h]]
  show "critical_errors (analyze_dxf_file self (Inr d)) = errors s"
    and "result_warnings (analyze_dxf_file self (Inr d)) = warnings s"
    and "result_export_errors (analyze_dxf_file self (Inr d)) = export_errors s"
    and "result_total_entities (analyze_dxf_file self (Inr d)) = total_entities s"
    and "calculate_health_percentage s = Inr (health_percentage (analyze_dxf_file self (Inr d)))"
    and "status (summary (analyze_dxf_file self (Inr d))) =
           (if length (errors s) = 0 then ''READY''
            else if length (errors s) < 5 then ''NEEDS_REVIEW'' else ''CRITICAL'')"
    by (simp_all add: res h)
qed

lemmas points_defs = criticalPoints_def warningPoints_def exportPoints_def ErrorReport_def

lemma health_defined_fixtures:
  "\<exists>h. calculate_health_percentage
         \<lparr>min_distance_mm = Finite 1, errors = [],
          warnings = [ErrorReport 11 WARNING [''A''] 4, ErrorReport 30 WARNING [''FILE''] 5],
          export_errors = [], total_entities = 1\<rparr> = Inr h"
  "\<exists>h. calculate_health_percentage
         \<lparr>min_distance_mm = Finite 1, errors = [ErrorReport 7 CRITICAL [''P1'', ''P2''] 7],
          warnings = [], export_errors = [], total_entities = 2\<rparr> = Inr h"
  "\<exists>h. calculate_health_percentage
         \<lparr>min_distance_mm = Finite 1,
          errors = [ErrorReport 25 CRITICAL [''A'', ''B''] 10,
                    ErrorReport 25 CRITICAL [''A'', ''B''] 10],
          warnings = [ErrorReport 11 WARNING [''A''] 4, ErrorReport 11 WARNING [''B''] 4,
                      ErrorReport 30 WARNING [''FILE''] 5],
          export_errors = [], total_entities = 2\<rparr> = Inr h"
  "\<exists>h. calculate_health_percentage
         \<lparr>min_distance_mm = Finite 1,
          errors = [ErrorReport 7 CRITICAL [''A'', ''B''] 7],
          warnings = [ErrorReport 11 WARNING [''A''] 4, ErrorReport 11 WARNING [''B''] 4,
                      ErrorReport 30 WARNING [''FILE''] 5],
          export_errors = [], total_entities = 2\<rparr> = Inr h"
  "\<exists>h. calculate_health_percentage
         \<lparr>min_distance_mm = Finite 1, errors = [],
          warnings = [ErrorReport 28 WARNING [''P''] 5, ErrorReport 30 WARNING [''FILE''] 5],
          export_errors = [], total_entities = 1\<rparr> = Inr h"
  "\<exists>h. calculate_health_percentage
         \<lparr>min_distance_mm = Finite 1, errors = [],
          warnings = [ErrorReport 11 WARNING [''A''] 4, ErrorReport 30 WARNING [''FILE''] 5],
          export_errors = [], total_entities = 2\<rparr> = Inr h"
  by (rule calculate_health_percentage_defined; simp add: points_defs)+

lemma health_defined_empty:
  "\<exists>h. calculate_health_percentage
         \<lparr>min_distance_mm = Finite 1, errors = [ErrorReport 26 CRITICAL [] 10], warnings = [],
          export_errors = [], total_entities = 0\<rparr> = Inr h"
  by (simp add: calculate_health_percentage_def)

lemma fixture_layers:
  "layers one_line = LayerMapping []" "layers empty_document = LayerMapping []"
  "layers two_polylines = LayerMapping []" "layers close_lines = LayerMapping []"
  "layers paper_space_duplicate = LayerMapping []" "layers short_polyline = LayerMapping []"
  "layers line_and_polyline = LayerMapping []"
  by (simp_all add: one_line_def empty_document_def two_polylines_def close_lines_def
        paper_space_duplicate_def short_polyline_def line_and_polyline_def plain_document_def)

lemmas analyze_one_line =
  analyze_records [OF run_one_line fixture_layers(1) health_defined_fixtures(1)]

lemmas analyze_empty_document =
  analyze_records [OF run_empty_document fixture_layers(2) health_defined_empty]

lemmas analyze_two_polylines =
  analyze_records [OF run_two_polylines fixture_layers(3) health_defined_fixtures(2)]

lemmas analyze_close_lines =
  analyze_records [OF run_close_lines fixture_layers(4) health_defined_fixtures(3)]

lemmas analyze_paper_space_duplicate =
  analyze_records [OF run_paper_space_duplicate fixture_layers(5) health_defined_fixtures(4)]

lemmas analyze_short_polyline =
  analyze_records [OF run_short_polyline fixture_layers(6) health_defined_fixtures(5)]

lemmas analyze_line_and_polyline =
  analyze_records [OF run_line_and_polyline fixture_layers(7) health_defined_fixtures(6)]


lemma calculate_health_percentage_float:
  assumes "0 < total_entities s"
  shows "calculate_health_percentage s =
           float_health (total_entities s) (errors s) (warnings s) (export_errors s)"
proof -
  from assms have nz: "(total_entities s = 0) = False" "(total_entities s * 100 = 0) = False"
    by simp_all
  show ?thesis
    unfolding calculate_health_percentage_def float_health_def criticalPoints_def
      warningPoints_def exportPoints_def Let_def
    by (simp only: nz if_False)
qed

lemma result_health_float:
  assumes "0 < result_total_entities (analyze_dxf_file self readfile)"
  shows "float_health (result_total_entities (analyze_dxf_file self readfile))
           (critical_errors (analyze_dxf_file self readfile))
           (result_warnings (analyze_dxf_file self readfile))
           (result_export_errors (analyze_dxf_file self readfile))
         = Inr (health_percentage (analyze_dxf_file self readfile))"
proof (cases readfile)
  case (Inl e)
  with assms show ?thesis
    by (simp add: analyze_load_failure load_failure_result_def)
next
  case (Inr d)
  show ?thesis
  proof (cases rule: analyze_cases [of self d])
    case (1 e)
    with assms Inr show ?thesis
      by (simp add: load_failure_result_def)
  next
    case (2 s)
    note rec = build_result_records [OF 2(2)]
    from assms rec have "0 < total_entities s"
      by (simp add: Inr)
    from calculate_health_percentage_float [OF this] rec show ?thesis
      by (simp add: Inr)
  qed
qed

lemma double_469_800:
  "to_double (469 / 800) = Finite (5280470563091907 / 2 ^ 53)"
  by (rule to_double_eval, subst round_to_double_eval [where k = "- 1"])
     (simp_all add: pow2_simps round_half_even_def)

lemma double_469_800_times_100:
  "to_double (5280470563091907 / 2 ^ 53 * 100) = Finite (8250735254831105 / 2 ^ 47)"
  by (rule to_double_eval, subst round_to_double_eval [where k = 5])
     (simp_all add: pow2_simps round_half_even_def)

lemma double_100_minus:
  "to_double (100 - 8250735254831105 / 2 ^ 47) = Finite (5823013580701695 / 2 ^ 47)"
  using to_double_dyadic [of 5823013580701695 47] by simp

lemma double_4137_100:
  "to_double (4137 / 100) = Finite (5822309893259919 / 2 ^ 47)"
  by (rule to_double_eval, subst round_to_double_eval [where k = 5])
     (simp_all add: pow2_simps round_half_even_def)

lemma double_4138_100:
  "to_double (4138 / 100) = Finite (5823717268143473 / 2 ^ 47)"
  by (rule to_double_eval, subst round_to_double_eval [where k = 5])
     (simp_all add: pow2_simps round_half_even_def)

lemma double_27_100:
  "to_double (27 / 100) = Finite (4863887597560136 / 2 ^ 54)"
  by (rule to_double_eval, subst round_to_double_eval [where k = "- 2"])
     (simp_all add: pow2_simps round_half_even_def)

lemma double_27_100_times_100:
  "to_double (4863887597560136 / 2 ^ 54 * 100) = Finite 27"
  by (rule to_double_eval, subst round_to_double_eval [where k = 4])
     (simp_all add: pow2_simps round_half_even_def)

text \<open>The steps of the health formula, one rounding after the other.\<close>

lemma float_health_steps:
  assumes "n \<noteq> 0"
    and "to_double (real_of_int (criticalPoints c + warningPoints w + exportPoints e)
                      / real_of_int (n * 100)) = Finite q"
    and "to_double (q * 100) = Finite p"
    and "to_double (100 - p) = Finite d" and "0 < d"
    and "to_double (real_of_int (round_half_even (d * 10 ^ 2)) / 10 ^ 2) = h"
  shows "float_health n c w e = Inr h"
  using assms
  by (simp add: float_health_def true_divide_def and_then_def fsub_def py_max_def)

lemma float_health_one_line:
  "float_health 1 [] [ErrorReport 11 WARNING [''A''] 4, ErrorReport 30 WARNING [''FILE''] 5] []
     = Inr (Finite 73)"
proof (rule float_health_steps)
  show "to_double (real_of_int (criticalPoints [] + warningPoints
          [ErrorReport 11 WARNING [''A''] 4, ErrorReport 30 WARNING [''FILE''] 5]
          + exportPoints []) / real_of_int (1 * 100)) = Finite (4863887597560136 / 2 ^ 54)"
    using double_27_100 by (simp add: points_defs)
  show "to_double (4863887597560136 / 2 ^ 54 * 100) = Finite 27"
    by (rule double_27_100_times_100)
  show "to_double (100 - 27) = Finite 73"
    by (simp add: to_double_numeral)
  show "to_double (real_of_int (round_half_even (73 * 10 ^ 2)) / 10 ^ 2) = Finite 73"
    by (simp add: to_double_numeral)
qed simp_all

lemma health_tie_points:
  "criticalPoints (errors health_tie_state) + warningPoints (warnings health_tie_state)
     + exportPoints (export_errors health_tie_state) = 469"
  by (simp add: health_tie_state_def points_defs)

lemma float_health_tie:
  "float_health 8 (errors health_tie_state) (warnings health_tie_state)
     (export_errors health_tie_state) = Inr (to_double (4137 / 100))"
proof (rule float_health_steps)
  show "to_double (real_of_int (criticalPoints (errors health_tie_state)
          + warningPoints (warnings health_tie_state)
          + exportPoints (export_errors health_tie_state)) / real_of_int (8 * 100))
        = Finite (5280470563091907 / 2 ^ 53)"
    using double_469_800 by (simp add: health_tie_points)
  show "to_double (5280470563091907 / 2 ^ 53 * 100) = Finite (8250735254831105 / 2 ^ 47)"
    by (rule double_469_800_times_100)
  show "to_double (100 - 8250735254831105 / 2 ^ 47) = Finite (5823013580701695 / 2 ^ 47)"
    by (rule double_100_minus)
  show "to_double (real_of_int (round_half_even (5823013580701695 / 2 ^ 47 * 10 ^ 2)) / 10 ^ 2)
          = to_double (4137 / 100)"
    by (simp add: round_half_even_def)
qed simp_all

lemma spec_health_tie:
  "spec_health 8 (errors health_tie_state) (warnings health_tie_state)
     (export_errors health_tie_state) = 4138 / 100"
  by (simp add: spec_health_def health_tie_points round_decimals_def round_half_even_def)

text \<open>
  C1, as amended. Whenever the entity count is positive, the health percentage is the
  value of \<open>round(max(0, 100 - points / (totalEntities * 100) * 100), 2)\<close> in floating
  point: the quotient, its product with 100 and the difference from 100 are each rounded
  to binary64, and the result is the float nearest to the two-decimal rounding of that
  difference. This holds of every result of an analysis, and of
  \<open>_calculate_health_percentage\<close> on every state of the analyzer; \<open>points\<close> adds
  \<open>severity * 10\<close> over the critical records, \<open>severity * 3\<close> over the warnings and
  \<open>severity * 5\<close> over the export errors.
\<close>

theorem health_percentage_float_formula:
  assumes "res = analyze_dxf_file self readfile"
  shows "(0 < result_total_entities res \<longrightarrow>
            float_health (result_total_entities res) (critical_errors res)
              (result_warnings res) (result_export_errors res)
            = Inr (health_percentage res))
       \<and> (0 < total_entities s \<longrightarrow>
            calculate_health_percentage s =
              float_health (total_entities s) (errors s) (warnings s) (export_errors s))"
  using assms result_health_float calculate_health_percentage_float by blast

theorem health_percentage_float_formula_witness:
  "0 < result_total_entities (analyze_dxf_file (DXFAnalyzer 1) (Inr one_line))
   \<and> critical_errors (analyze_dxf_file (DXFAnalyzer 1) (Inr one_line)) = []
   \<and> result_warnings (analyze_dxf_file (DXFAnalyzer 1) (Inr one_line)) =
       [ErrorReport 11 WARNING [''A''] 4, ErrorReport 30 WARNING [''FILE''] 5]
   \<and> result_export_errors (analyze_dxf_file (DXFAnalyzer 1) (Inr one_line)) = []
   \<and> health_percentage (analyze_dxf_file (DXFAnalyzer 1) (Inr one_line)) = Finite 73
   \<and> 0 < total_entities health_tie_state
   \<and> calculate_health_percentage health_tie_state =
       float_health 8 (errors health_tie_state) (warnings health_tie_state)
         (export_errors health_tie_state)"
proof -
  let ?res = "analyze_dxf_file (DXFAnalyzer 1) (Inr one_line)"
  note inst = health_percentage_float_formula [OF refl, of "DXFAnalyzer 1" "Inr one_line"
      health_tie_state]
  have total: "result_total_entities ?res = 1" and c: "critical_errors ?res = []"
    and w: "result_warnings ?res =
              [ErrorReport 11 WARNING [''A''] 4, ErrorReport 30 WARNING [''FILE''] 5]"
    and e: "result_export_errors ?res = []"
    by (simp_all add: analyze_one_line)
  have t: "total_entities health_tie_state = 8"
    by (simp add: health_tie_state_def)
  from inst have "float_health 1 [] [ErrorReport 11 WARNING [''A''] 4,
        ErrorReport 30 WARNING [''FILE''] 5] [] = Inr (health_percentage ?res)"
    by (simp add: total c w e)
  then have h: "health_percentage ?res = Finite 73"
    by (simp add: float_health_one_line)
  from inst have "calculate_health_percentage health_tie_state =
       float_health 8 (errors health_tie_state) (warnings health_tie_state)
         (export_errors health_tie_state)"
    by (simp add: t)
  with total c w e h t show ?thesis
    by simp
qed

text \<open>
  C1 as stated fails. With 469 error points and 8 entities the exact value of the formula
  is 41.375, which rounds to 41.38, while \<open>_calculate_health_percentage\<close> returns the
  float nearest to 41.37: the quotient \<open>469 / 800\<close> and its product with 100 are rounded
  and give \<open>58.62500000000001\<close>.
\<close>

theorem health_percentage_differs_from_exact_formula:
  "total_entities health_tie_state = 8
   \<and> criticalPoints (errors health_tie_state) + warningPoints (warnings health_tie_state)
       + exportPoints (export_errors health_tie_state) = 469
   \<and> calculate_health_percentage health_tie_state = Inr (to_double (4137 / 100))
   \<and> spec_health 8 (errors health_tie_state) (warnings health_tie_state)
       (export_errors health_tie_state) = 4138 / 100
   \<and> to_double (4137 / 100) \<noteq> to_double (4138 / 100)"
proof -
  have t: "total_entities health_tie_state = 8"
    by (simp add: health_tie_state_def)
  then have "calculate_health_percentage health_tie_state = Inr (to_double (4137 / 100))"
    using calculate_health_percentage_float [of health_tie_state]
    by (simp add: float_health_tie)
  moreover have "to_double (4137 / 100) \<noteq> to_double (4138 / 100)"
    unfolding double_4137_100 double_4138_100 by simp
  ultimately show ?thesis
    using t health_tie_points spec_health_tie by simp
qed


section \<open>The empty document\<close>















section \<open>Distance check\<close>

lemma more_values:
  "sqrt 400 = 20" "sqrt (441 / 4) = 21 / 2"
  "to_double (21 / 2) = Finite (21 / 2)" "to_double (441 / 4) = Finite (441 / 4)"
  "round_to_double (21 / 2) = 21 / 2"
proof -
  show "sqrt 400 = 20" "sqrt (441 / 4) = 21 / 2"
    by (rule real_sqrt_unique; simp add: power2_eq_square)+
  show "to_double (21 / 2) = Finite (21 / 2)" "to_double (441 / 4) = Finite (441 / 4)"
    using to_double_dyadic [of 21 1] to_double_dyadic [of 441 2] by simp_all
  show "round_to_double (21 / 2) = 21 / 2"
    using round_to_double_dyadic [of 21 1] by simp
qed

lemma distances_parsed_collinear_lines:
  "check_vector_distances parsed_collinear_lines (DXFAnalyzer 1) = Inl (AttributeError ''handle'')"
  by (simp add: parsed_collinear_lines_def fixture_defs eval_defs more_values)

lemma distances_parsed_close_lines:
  "check_vector_distances parsed_close_lines (DXFAnalyzer 1) = Inl (AttributeError ''handle'')"
  by (simp add: parsed_close_lines_def fixture_defs eval_defs)

text \<open>
  C3. Two lines of a document of the parsing library, the end of the first half a unit
  from the start of the second: the distance of these two sampled points is 0.5, positive
  and below the minimum 1, and building the record raises on \<open>entity1.handle\<close>. The
  distance check appends no record and raises, and the analysis of the document has no
  record with id 25.
\<close>

theorem distance_check_raises_on_close_pair:
  "modelspace parsed_collinear_lines =
     [line_entity ''A'' (Some ''CUT'') (point 0 0 0) (point 10 0 0),
      line_entity ''B'' (Some ''CUT'') (point (21 / 2) 0 0) (point 20 0 0)]
   \<and> calculate_distance (False, point 10 0 0) (False, point (21 / 2) 0 0) = Inr (Finite (1 / 2))
   \<and> flt (Finite 0) (Finite (1 / 2))
   \<and> flt (Finite (1 / 2)) (min_distance_mm (DXFAnalyzer 1))
   \<and> distance_check (line_entity ''A'' (Some ''CUT'') (point 0 0 0) (point 10 0 0))
        (line_entity ''B'' (Some ''CUT'') (point (21 / 2) 0 0) (point 20 0 0))
        (False, point 10 0 0) (False, point (21 / 2) 0 0) (DXFAnalyzer 1)
       = Inl (AttributeError ''handle'')
   \<and> check_vector_distances parsed_collinear_lines (DXFAnalyzer 1)
       = Inl (AttributeError ''handle'')
   \<and> critical_errors (analyze_dxf_file (DXFAnalyzer 1) (Inr parsed_collinear_lines)) =
       [ErrorReport 0 CRITICAL [''FILE''] 10]"
proof -
  have "calculate_distance (False, point 10 0 0) (False, point (21 / 2) 0 0)
          = Inr (Finite (1 / 2))"
    by (simp add: fixture_defs eval_defs)
  moreover have "distance_check (line_entity ''A'' (Some ''CUT'') (point 0 0 0) (point 10 0 0))
        (line_entity ''B'' (Some ''CUT'') (point (21 / 2) 0 0) (point 20 0 0))
        (False, point 10 0 0) (False, point (21 / 2) 0 0) (DXFAnalyzer 1)
       = Inl (AttributeError ''handle'')"
    by (simp add: fixture_defs eval_defs)
  moreover have "critical_errors (analyze_dxf_file (DXFAnalyzer 1) (Inr parsed_collinear_lines))
       = [ErrorReport 0 CRITICAL [''FILE''] 10]"
    by (simp add: analyze_fault [OF run_parsed_collinear_lines] load_failure_result_def)
  ultimately show ?thesis
    using distances_parsed_collinear_lines
    by (simp add: parsed_collinear_lines_def parsed_document_def DXFAnalyzer_def)
qed

text \<open>
  C10. Two parallel lines of a document of the parsing library, half a unit apart: two
  pairs of sampled points are at a positive distance below the minimum 1, and the
  distance check appends no record for them: it raises on \<open>entity1.handle\<close> at the first
  pair. The analysis of the document has no record with id 25.
\<close>

theorem no_record_for_offending_point_pairs:
  "modelspace parsed_close_lines =
     [line_entity ''A'' (Some ''CUT'') (point 0 0 0) (point 10 0 0),
      line_entity ''B'' (Some ''CUT'') (point 0 (1 / 2) 0) (point 10 (1 / 2) 0)]
   \<and> get_entity_points (line_entity ''A'' (Some ''CUT'') (point 0 0 0) (point 10 0 0))
       = Inr [(False, point 0 0 0), (False, point 10 0 0)]
   \<and> get_entity_points (line_entity ''B'' (Some ''CUT'') (point 0 (1 / 2) 0) (point 10 (1 / 2) 0))
       = Inr [(False, point 0 (1 / 2) 0), (False, point 10 (1 / 2) 0)]
   \<and> offending_pairs (min_distance_mm (DXFAnalyzer 1))
        [(False, point 0 0 0), (False, point 10 0 0)]
        [(False, point 0 (1 / 2) 0), (False, point 10 (1 / 2) 0)]
       = [((False, point 0 0 0), (False, point 0 (1 / 2) 0)),
          ((False, point 10 0 0), (False, point 10 (1 / 2) 0))]
   \<and> check_vector_distances parsed_close_lines (DXFAnalyzer 1)
       = Inl (AttributeError ''handle'')
   \<and> critical_errors (analyze_dxf_file (DXFAnalyzer 1) (Inr parsed_close_lines)) =
       [ErrorReport 0 CRITICAL [''FILE''] 10]"
proof -
  have "offending_pairs (min_distance_mm (DXFAnalyzer 1))
        [(False, point 0 0 0), (False, point 10 0 0)]
        [(False, point 0 (1 / 2) 0), (False, point 10 (1 / 2) 0)]
       = [((False, point 0 0 0), (False, point 0 (1 / 2) 0)),
          ((False, point 10 0 0), (False, point 10 (1 / 2) 0))]"
    by (simp add: offending_pairs_def fixture_defs eval_defs)
  moreover have "critical_errors (analyze_dxf_file (DXFAnalyzer 1) (Inr parsed_close_lines))
       = [ErrorReport 0 CRITICAL [''FILE''] 10]"
    by (simp add: analyze_fault [OF run_parsed_close_lines] load_failure_result_def)
  ultimately show ?thesis
    using distances_parsed_close_lines
    by (simp add: parsed_close_lines_def parsed_document_def get_entity_points_def
          line_entity_def blank_entity_def attr_def and_then_def)
qed

section \<open>Which layouts the checks read\<close>

text \<open>
  C6, as amended. In every result, a record with id 25 lists the handles of two entities of
  the model space, and the distance check does not depend on the other layouts; a record
  with id 7 lists handles of entities of any layout (the duplicate check reads every
  layout, not only the model space).
\<close>

theorem distance_reports_reference_modelspace:
  assumes "r \<in> set (critical_errors (analyze_dxf_file self (Inr d)))"
  shows "(error_id r = 25 \<longrightarrow>
           (\<exists>e1 e2. e1 \<in> set (modelspace d) \<and> e2 \<in> set (modelspace d)
              \<and> affected_entities r = [handle e1, handle e2]))
       \<and> (error_id r = 7 \<longrightarrow>
           set (affected_entities r) \<subseteq> handle ` set (concat (layouts d)))
       \<and> check_vector_distances (d\<lparr>paperspaces := other\<rparr>) s = check_vector_distances d s"
proof -
  have in_possible: "r \<in> possible_reports d" if "error_id r \<noteq> 0"
    using assms that by (intro result_reports_possible [of r self d]) simp_all
  have "\<exists>e1 e2. e1 \<in> set (modelspace d) \<and> e2 \<in> set (modelspace d)
              \<and> affected_entities r = [handle e1, handle e2]" if "error_id r = 25"
    using in_possible that
    by (auto simp: possible_reports_def entity_reports_def modelspace_reports_def ErrorReport_def
          split: if_splits)
  moreover have "set (affected_entities r) \<subseteq> handle ` set (concat (layouts d))"
    if "error_id r = 7"
    using in_possible that
    by (auto simp: possible_reports_def entity_reports_def modelspace_reports_def ErrorReport_def
          split: if_splits)
  ultimately show ?thesis
    by (simp add: check_vector_distances_def)
qed

theorem distance_reports_reference_modelspace_witness:
  "ErrorReport 25 CRITICAL [''A'', ''B''] 10
     \<in> set (critical_errors (analyze_dxf_file (DXFAnalyzer 1) (Inr close_lines)))
   \<and> (\<exists>e1 e2. e1 \<in> set (modelspace close_lines) \<and> e2 \<in> set (modelspace close_lines)
          \<and> [''A'', ''B''] = [handle e1, handle e2])
   \<and> ErrorReport 7 CRITICAL [''A'', ''B''] 7
     \<in> set (critical_errors (analyze_dxf_file (DXFAnalyzer 1) (Inr paper_space_duplicate)))
   \<and> set [''A'', ''B''] \<subseteq> handle ` set (concat (layouts paper_space_duplicate))"
proof -
  have m1: "ErrorReport 25 CRITICAL [''A'', ''B''] 10
              \<in> set (critical_errors (analyze_dxf_file (DXFAnalyzer 1) (Inr close_lines)))"
    by (simp add: analyze_close_lines(1))
  have m2: "ErrorReport 7 CRITICAL [''A'', ''B''] 7
     \<in> set (critical_errors (analyze_dxf_file (DXFAnalyzer 1) (Inr paper_space_duplicate)))"
    by (simp add: analyze_paper_space_duplicate(1))
  from distance_reports_reference_modelspace [OF m1]
  have "\<exists>e1 e2. e1 \<in> set (modelspace close_lines) \<and> e2 \<in> set (modelspace close_lines)
          \<and> [''A'', ''B''] = [handle e1, handle e2]"
    by (simp add: ErrorReport_def)
  moreover from distance_reports_reference_modelspace [OF m2]
  have "set [''A'', ''B''] \<subseteq> handle ` set (concat (layouts paper_space_duplicate))"
    by (simp add: ErrorReport_def)
  ultimately show ?thesis
    using m1 m2 by blast
qed

text \<open>C6 as stated fails for id 7: the record of the duplicate check references an
  entity that is in a paper space and not in the model space.\<close>

theorem duplicate_check_reads_paper_space:
  "ErrorReport 7 CRITICAL [''A'', ''B''] 7
     \<in> set (critical_errors (analyze_dxf_file (DXFAnalyzer 1) (Inr paper_space_duplicate)))
   \<and> ''B'' \<notin> handle ` set (modelspace paper_space_duplicate)
   \<and> ''B'' \<in> handle ` set (concat (paperspaces paper_space_duplicate))"
proof -
  have "ErrorReport 7 CRITICAL [''A'', ''B''] 7
     \<in> set (critical_errors (analyze_dxf_file (DXFAnalyzer 1) (Inr paper_space_duplicate)))"
    by (simp add: analyze_paper_space_duplicate(1))
  then show ?thesis
    by (simp add: paper_space_duplicate_def fixture_defs)
qed

section \<open>Entities without bounds\<close>

lemma possible_reports_bounds:
  assumes "r \<in> possible_reports d" and "error_id r = 5 \<or> error_id r = 11"
  shows "\<exists>e' \<in> set (concat (layouts d)).
           get_entity_bounds e' \<noteq> None \<and> affected_entities r = [handle e']"
proof -
  from assms obtain e' where "e' \<in> set (concat (layouts d))" and "r \<in> entity_reports e'"
    unfolding possible_reports_def modelspace_reports_def
    by (auto simp: ErrorReport_def)
  with assms(2) show ?thesis
    by (intro bexI [of _ e']) (auto simp: entity_reports_def ErrorReport_def split: if_splits)
qed

text \<open>
  C8, as amended. With unique handles, an entity whose bounds are undetermined is never
  referenced by a record with id 5 or 11, and the records with id 29 or 30 reference only
  \<open>FILE\<close>. (Id 28 is decided by the computed size of the entity, not by its bounds.)
\<close>

theorem bounds_checks_skip_undetermined:
  assumes "r \<in> set (critical_errors (analyze_dxf_file self (Inr d)))
               \<union> set (result_warnings (analyze_dxf_file self (Inr d)))"
    and "distinct (map handle (concat (layouts d)))"
    and "e \<in> set (concat (layouts d))" and "get_entity_bounds e = None"
  shows "(error_id r = 5 \<or> error_id r = 11 \<longrightarrow> handle e \<notin> set (affected_entities r))
       \<and> (error_id r = 29 \<or> error_id r = 30 \<longrightarrow> affected_entities r = [''FILE''])"
proof -
  have in_possible: "r \<in> possible_reports d" if "error_id r \<noteq> 0"
    using assms(1) that by (intro result_reports_possible [of r self d]) auto
  have inj: "inj_on handle (set (concat (layouts d)))"
    using assms(2) by (simp add: distinct_map)
  have "handle e \<notin> set (affected_entities r)" if id: "error_id r = 5 \<or> error_id r = 11"
  proof -
    from id have "error_id r \<noteq> 0" by auto
    from possible_reports_bounds [OF in_possible [OF this] id]
    obtain e' where e': "e' \<in> set (concat (layouts d))"
      "get_entity_bounds e' \<noteq> None" "affected_entities r = [handle e']"
      by blast
    show ?thesis
    proof
      assume "handle e \<in> set (affected_entities r)"
      with e'(3) have "handle e = handle e'" by simp
      with inj assms(3) e'(1) have "e = e'" by (auto simp: inj_on_def)
      with assms(4) e'(2) show False by simp
    qed
  qed
  moreover have "affected_entities r = [''FILE'']" if "error_id r = 29 \<or> error_id r = 30"
    using in_possible that
    by (auto simp: possible_reports_def entity_reports_def modelspace_reports_def ErrorReport_def
          split: if_splits)
  ultimately show ?thesis by blast
qed

theorem bounds_checks_skip_undetermined_witness:
  "ErrorReport 11 WARNING [''A''] 4
     \<in> set (result_warnings (analyze_dxf_file (DXFAnalyzer 1) (Inr line_and_polyline)))
   \<and> ErrorReport 30 WARNING [''FILE''] 5
     \<in> set (result_warnings (analyze_dxf_file (DXFAnalyzer 1) (Inr line_and_polyline)))
   \<and> distinct (map handle (concat (layouts line_and_polyline)))
   \<and> polyline_entity ''P'' (Some ''MARK'') [point 0 2 0, point 30 2 0]
     \<in> set (concat (layouts line_and_polyline))
   \<and> get_entity_bounds (polyline_entity ''P'' (Some ''MARK'') [point 0 2 0, point 30 2 0]) = None
   \<and> handle (polyline_entity ''P'' (Some ''MARK'') [point 0 2 0, point 30 2 0]) \<notin> set [''A'']
   \<and> affected_entities (ErrorReport 30 WARNING [''FILE''] 5) = [''FILE'']"
proof -
  let ?P = "polyline_entity ''P'' (Some ''MARK'') [point 0 2 0, point 30 2 0]"
  let ?res = "analyze_dxf_file (DXFAnalyzer 1) (Inr line_and_polyline)"
  have w: "result_warnings ?res =
             [ErrorReport 11 WARNING [''A''] 4, ErrorReport 30 WARNING [''FILE''] 5]"
    by (simp add: analyze_line_and_polyline(2))
  have m11: "ErrorReport 11 WARNING [''A''] 4 \<in> set (critical_errors ?res) \<union> set (result_warnings ?res)"
    and m30: "ErrorReport 30 WARNING [''FILE''] 5 \<in> set (critical_errors ?res) \<union> set (result_warnings ?res)"
    by (simp_all add: w)
  have h2: "distinct (map handle (concat (layouts line_and_polyline)))"
    by (simp add: line_and_polyline_def fixture_defs layouts_def)
  have h3: "?P \<in> set (concat (layouts line_and_polyline))"
    by (simp add: line_and_polyline_def plain_document_def layouts_def)
  have h4: "get_entity_bounds ?P = None"
    by (simp add: get_entity_bounds_def polyline_entity_def blank_entity_def)
  from bounds_checks_skip_undetermined [OF m11 h2 h3 h4]
  have "handle ?P \<notin> set [''A'']"
    by (simp add: ErrorReport_def)
  moreover from bounds_checks_skip_undetermined [OF m30 h2 h3 h4]
  have "affected_entities (ErrorReport 30 WARNING [''FILE''] 5) = [''FILE'']"
    by (simp add: ErrorReport_def)
  ultimately show ?thesis
    using w h2 h3 h4 by simp
qed

text \<open>C8 as stated fails for id 28: a short polyline has undetermined bounds and is
  referenced by the record with id 28.\<close>

theorem small_entity_without_bounds_reported:
  "polyline_entity ''P'' (Some ''MARK'') [point 0 0 0, point (1 / 2) 0 0]
     \<in> set (modelspace short_polyline)
   \<and> get_entity_bounds (polyline_entity ''P'' (Some ''MARK'') [point 0 0 0, point (1 / 2) 0 0])
       = None
   \<and> handle (polyline_entity ''P'' (Some ''MARK'') [point 0 0 0, point (1 / 2) 0 0]) = ''P''
   \<and> ErrorReport 28 WARNING [''P''] 5
     \<in> set (result_warnings (analyze_dxf_file (DXFAnalyzer 1) (Inr short_polyline)))"
proof -
  have "ErrorReport 28 WARNING [''P''] 5
     \<in> set (result_warnings (analyze_dxf_file (DXFAnalyzer 1) (Inr short_polyline)))"
    by (simp add: analyze_short_polyline(2))
  then show ?thesis
    by (simp add: short_polyline_def plain_document_def get_entity_bounds_def
          polyline_entity_def blank_entity_def)
qed

section \<open>Defects\<close>

text \<open>
  C4. Whenever the model space is empty, \<open>_check_layer_usage\<close> appends the record with
  id 26, and the list of its affected entities is empty.
\<close>

theorem layer_usage_record_without_affected_entity:
  "check_layer_usage (d\<lparr>modelspace := []\<rparr>) s =
     Inr (s\<lparr>errors := errors s @
            [\<lparr>error_id = 26, error_type = CRITICAL, affected_entities = [],
              severity_score = 10\<rparr>]\<rparr>)"
  by (simp add: check_layer_usage_def and_then_def add_error_def ErrorReport_def)

text \<open>
  C5. Two polylines with different vertices and without \<open>start\<close>/\<open>end\<close> get the same
  fingerprint, and the analysis reports them as duplicates of each other.
\<close>

theorem different_polylines_reported_as_duplicates:
  "start (polyline_entity ''P1'' (Some ''MARK'') [point 0 0 0, point 10 0 0]) = None
   \<and> vertices (polyline_entity ''P1'' (Some ''MARK'') [point 0 0 0, point 10 0 0])
       \<noteq> vertices (polyline_entity ''P2'' (Some ''MARK'') [point 0 50 0, point 30 50 0])
   \<and> get_entity_hash (polyline_entity ''P1'' (Some ''MARK'') [point 0 0 0, point 10 0 0])
       = get_entity_hash (polyline_entity ''P2'' (Some ''MARK'') [point 0 50 0, point 30 50 0])
   \<and> modelspace two_polylines =
       [polyline_entity ''P1'' (Some ''MARK'') [point 0 0 0, point 10 0 0],
        polyline_entity ''P2'' (Some ''MARK'') [point 0 50 0, point 30 50 0]]
   \<and> critical_errors (analyze_dxf_file (DXFAnalyzer 1) (Inr two_polylines)) =
       [ErrorReport 7 CRITICAL [''P1'', ''P2''] 7]"
proof -
  have "critical_errors (analyze_dxf_file (DXFAnalyzer 1) (Inr two_polylines)) =
       [ErrorReport 7 CRITICAL [''P1'', ''P2''] 7]"
    by (simp add: analyze_two_polylines(1))
  then show ?thesis
    by (simp add: two_polylines_def plain_document_def get_entity_hash_def polyline_entity_def
          blank_entity_def point_def)
qed

text \<open>
  C7. A document that loads, with a text on layer CUT and a line without a layer attribute:
  the critical checks have recorded ids 3 and 2 when \<open>_check_layer_usage\<close> raises on the
  line, and the analysis returns the load-failure result without those records.
\<close>

theorem entity_fault_aborts_the_run:
  "validate_critical_errors text_and_layerless_line (DXFAnalyzer 1) =
     Inr ((DXFAnalyzer 1)\<lparr>errors := [ErrorReport 3 CRITICAL [''A''] 8,
                                     ErrorReport 2 CRITICAL [''B''] 9]\<rparr>)
   \<and> check_layer_usage text_and_layerless_line (DXFAnalyzer 1) = Inl (AttributeError ''layer'')
   \<and> analyze_dxf_file (DXFAnalyzer 1) (Inr text_and_layerless_line) =
       load_failure_result (AttributeError ''layer'')
   \<and> critical_errors (analyze_dxf_file (DXFAnalyzer 1) (Inr text_and_layerless_line)) =
       [ErrorReport 0 CRITICAL [''FILE''] 10]"
proof -
  have "validate_critical_errors text_and_layerless_line (DXFAnalyzer 1) =
     Inr ((DXFAnalyzer 1)\<lparr>errors := [ErrorReport 3 CRITICAL [''A''] 8,
                                     ErrorReport 2 CRITICAL [''B''] 9]\<rparr>)"
    by (simp add: text_and_layerless_line_def fixture_defs eval_defs)
  moreover have "check_layer_usage text_and_layerless_line (DXFAnalyzer 1) =
                   Inl (AttributeError ''layer'')"
    by (simp add: text_and_layerless_line_def fixture_defs check_layer_usage_def
          and_then_def attr_def)
  ultimately show ?thesis
    by (simp add: analyze_fault [OF run_text_and_layerless_line] load_failure_result_def)
qed

text \<open>
  C9. The same document loads, and its result has one critical record and the status
  \<open>ERROR\<close>.
\<close>

theorem loaded_document_with_error_status:
  "status (summary (analyze_dxf_file (DXFAnalyzer 1) (Inr text_and_layerless_line))) = ''ERROR''
   \<and> length (critical_errors (analyze_dxf_file (DXFAnalyzer 1) (Inr text_and_layerless_line)))
       = 1"
  by (simp add: analyze_fault [OF run_text_and_layerless_line] load_failure_result_def)


section \<open>Further properties of the result\<close>

lemma generate_summary_status:
  "generate_summary d s = Inr sm \<Longrightarrow>
   status sm = (if length (errors s) = 0 then ''READY''
                else if length (errors s) < 5 then ''NEEDS_REVIEW'' else ''CRITICAL'')"
  by (auto simp: generate_summary_def and_then_def split: sum.splits)

text \<open>
  When the \<open>try\<close> block completes, the status is \<open>READY\<close> for no critical record,
  \<open>NEEDS_REVIEW\<close> for one to four and \<open>CRITICAL\<close> for five or more; when the file does
  not load, the status is \<open>ERROR\<close>.
\<close>

theorem summary_status_classification:
  assumes "run_validators d (reset_analysis self) = Inr s" and "build_result d s = Inr res"
  shows "status (summary (analyze_dxf_file self (Inr d))) =
           (if length (critical_errors (analyze_dxf_file self (Inr d))) = 0 then ''READY''
            else if length (critical_errors (analyze_dxf_file self (Inr d))) < 5
                 then ''NEEDS_REVIEW'' else ''CRITICAL'')
       \<and> status (summary (analyze_dxf_file self (Inl e))) = ''ERROR''"
proof -
  note rec = build_result_records [OF assms(2)]
  from rec have "generate_summary d s = Inr (summary res)" by simp
  then have "status (summary res) =
           (if length (errors s) = 0 then ''READY''
            else if length (errors s) < 5 then ''NEEDS_REVIEW'' else ''CRITICAL'')"
    by (rule generate_summary_status)
  with rec show ?thesis
    by (simp add: analyze_success [OF assms] analyze_load_failure load_failure_result_def)
qed

theorem summary_status_classification_witness:
  "run_validators one_line (reset_analysis (DXFAnalyzer 1)) =
     Inr \<lparr>min_distance_mm = Finite 1, errors = [],
          warnings = [ErrorReport 11 WARNING [''A''] 4, ErrorReport 30 WARNING [''FILE''] 5],
          export_errors = [], total_entities = 1\<rparr>
   \<and> critical_errors (analyze_dxf_file (DXFAnalyzer 1) (Inr one_line)) = []
   \<and> status (summary (analyze_dxf_file (DXFAnalyzer 1) (Inr one_line))) = ''READY''
   \<and> status (summary (analyze_dxf_file (DXFAnalyzer 1) (Inl LoadError))) = ''ERROR''"
proof -
  have c: "critical_errors (analyze_dxf_file (DXFAnalyzer 1) (Inr one_line)) = []"
    by (simp add: analyze_one_line(1))
  from health_defined_fixtures(1) obtain h where
    "calculate_health_percentage
         \<lparr>min_distance_mm = Finite 1, errors = [],
          warnings = [ErrorReport 11 WARNING [''A''] 4, ErrorReport 30 WARNING [''FILE''] 5],
          export_errors = [], total_entities = 1\<rparr> = Inr h"
    by blast
  note build = build_result_plain [OF fixture_layers(1) this]
  from summary_status_classification [OF run_one_line build, of LoadError] c run_one_line
  show ?thesis by simp
qed

lemma possible_reports_wf:
  assumes "r \<in> possible_reports d"
  shows "1 \<le> severity_score r \<and> severity_score r \<le> 10
         \<and> (error_id r \<noteq> 26 \<longrightarrow> affected_entities r \<noteq> [])"
  using assms
  by (auto simp: possible_reports_def entity_reports_def modelspace_reports_def ErrorReport_def
        split: if_splits)

lemma result_reports:
  assumes "r \<in> set (critical_errors (analyze_dxf_file self readfile))
             \<union> set (result_warnings (analyze_dxf_file self readfile))
             \<union> set (result_export_errors (analyze_dxf_file self readfile))"
  shows "r = ErrorReport 0 CRITICAL [''FILE''] 10 \<or> (\<exists>d. r \<in> possible_reports d)"
proof (cases readfile)
  case (Inl e)
  with assms show ?thesis
    by (simp add: analyze_load_failure load_failure_result_def)
next
  case (Inr d)
  show ?thesis
  proof (cases "error_id r = 0")
    case False
    with assms Inr have "r \<in> possible_reports d"
      by (intro result_reports_possible [of r self d]) simp_all
    then show ?thesis by blast
  next
    case True
    show ?thesis
    proof (cases rule: analyze_cases [of self d])
      case (1 e)
      with assms Inr show ?thesis
        by (simp add: load_failure_result_def)
    next
      case (2 s)
      from build_result_records [OF 2(2)] assms Inr run_validators_ok [OF 2(1)]
      have "r \<in> possible_reports d"
        by (auto simp: reports_ok_def)
      then show ?thesis by blast
    qed
  qed
qed

text \<open>
  Every record of every result has a severity between 1 and 10, and every record other
  than the one with id 26 has at least one affected entity.
\<close>

theorem report_invariants_except_layer_usage:
  assumes "r \<in> set (critical_errors (analyze_dxf_file self readfile))
             \<union> set (result_warnings (analyze_dxf_file self readfile))
             \<union> set (result_export_errors (analyze_dxf_file self readfile))"
  shows "1 \<le> severity_score r \<and> severity_score r \<le> 10
         \<and> (error_id r \<noteq> 26 \<longrightarrow> affected_entities r \<noteq> [])"
  using result_reports [OF assms] possible_reports_wf
  by (auto simp: ErrorReport_def)

theorem report_invariants_except_layer_usage_witness:
  "ErrorReport 25 CRITICAL [''A'', ''B''] 10
     \<in> set (critical_errors (analyze_dxf_file (DXFAnalyzer 1) (Inr close_lines)))
   \<and> 1 \<le> severity_score (ErrorReport 25 CRITICAL [''A'', ''B''] 10)
   \<and> severity_score (ErrorReport 25 CRITICAL [''A'', ''B''] 10) \<le> 10
   \<and> error_id (ErrorReport 25 CRITICAL [''A'', ''B''] 10) \<noteq> 26
   \<and> affected_entities (ErrorReport 25 CRITICAL [''A'', ''B''] 10) \<noteq> []"
proof -
  have m: "ErrorReport 25 CRITICAL [''A'', ''B''] 10
     \<in> set (critical_errors (analyze_dxf_file (DXFAnalyzer 1) (Inr close_lines)))"
    by (simp add: analyze_close_lines(1))
  then have "ErrorReport 25 CRITICAL [''A'', ''B''] 10
     \<in> set (critical_errors (analyze_dxf_file (DXFAnalyzer 1) (Inr close_lines)))
       \<union> set (result_warnings (analyze_dxf_file (DXFAnalyzer 1) (Inr close_lines)))
       \<union> set (result_export_errors (analyze_dxf_file (DXFAnalyzer 1) (Inr close_lines)))"
    by simp
  from report_invariants_except_layer_usage [OF this] m show ?thesis
    by (simp add: ErrorReport_def)
qed

end
